theory Spec2Isabelle
  imports Main "HOL-Library.Word"
begin

section \<open>Data model of the tool registry (packages/github-tools/src/index.ts)\<close>

text \<open>
  \<^verbatim>\<open>GithubWriteToolName\<close> is a closed union of seven string literals; it is the type of
  the keys of a per-tool approval configuration and of the argument of the local
  \<^verbatim>\<open>approval\<close> helper.
\<close>

datatype GithubWriteToolName =
    CreateOrUpdateFile
  | CreatePullRequest
  | MergePullRequest
  | AddPullRequestComment
  | CreateIssue
  | AddIssueComment
  | CloseIssue

text \<open>The string each member of the union is at run time.\<close>

fun writeToolKey :: "GithubWriteToolName \<Rightarrow> string" where
  "writeToolKey CreateOrUpdateFile = ''createOrUpdateFile''"
| "writeToolKey CreatePullRequest = ''createPullRequest''"
| "writeToolKey MergePullRequest = ''mergePullRequest''"
| "writeToolKey AddPullRequestComment = ''addPullRequestComment''"
| "writeToolKey CreateIssue = ''createIssue''"
| "writeToolKey AddIssueComment = ''addIssueComment''"
| "writeToolKey CloseIssue = ''closeIssue''"

text \<open>
  \<^verbatim>\<open>ApprovalConfig = boolean | Partial<Record<GithubWriteToolName, boolean>>\<close>:
  a tagged value, the object case being a partial map (an absent or \<^verbatim>\<open>undefined\<close>
  entry is \<open>None\<close>).
\<close>

datatype ApprovalConfig =
    Uniform bool
  | PerTool "GithubWriteToolName \<rightharpoonup> bool"

text \<open>\<^verbatim>\<open>GithubToolPreset\<close>: the four preset identifiers.\<close>

datatype GithubToolPreset = CodeReview | IssueTriage | RepoExplorer | Maintainer

text \<open>The \<^verbatim>\<open>preset\<close> option is one identifier or an array of identifiers.\<close>

datatype PresetSelector = Single GithubToolPreset | Many "GithubToolPreset list"

text \<open>
  \<^verbatim>\<open>GithubToolsOptions\<close>: \<^verbatim>\<open>requireApproval\<close> and \<^verbatim>\<open>preset\<close> are optional
  properties; \<open>None\<close> is the omitted (undefined) property.
\<close>

record GithubToolsOptions =
  token :: string
  requireApproval :: "ApprovalConfig option"
  preset :: "PresetSelector option"

text \<open>The client handle built by \<^verbatim>\<open>createOctokit\<close>: \<^verbatim>\<open>new Octokit({ auth: token })\<close>.\<close>

record Octokit =
  auth :: string

definition createOctokit :: "string \<Rightarrow> Octokit" where
  "createOctokit tok = \<lparr>auth = tok\<rparr>"

text \<open>
  \<^verbatim>\<open>ToolOptions\<close>, the optional second argument of a write-tool factory; its only
  property read by the factories is the optional \<^verbatim>\<open>needsApproval\<close>.
\<close>

record ToolOptions =
  opt_needsApproval :: "bool option"

text \<open>
  A tool definition as far as the registry is concerned: the \<^verbatim>\<open>needsApproval\<close> property
  (\<open>None\<close> when the object passed to \<^verbatim>\<open>tool\<close> has no such key) and the client handle
  the \<^verbatim>\<open>execute\<close> closure captures. The description and the input schema are constants
  of each factory; the execute functions the claims speak about are embedded further
  below.
\<close>

record tool =
  needsApproval :: "bool option"
  client :: Octokit

type_synonym registry = "(string \<times> tool) list"

section \<open>Approval resolution\<close>

text \<open>
  \<^verbatim>\<open>if (typeof config === 'boolean') return config; return config[toolName] ?? true\<close>
\<close>

fun resolveApproval :: "GithubWriteToolName \<Rightarrow> ApprovalConfig \<Rightarrow> bool" where
  "resolveApproval toolName (Uniform b) = b"
| "resolveApproval toolName (PerTool config) =
     (case config toolName of Some v \<Rightarrow> v | None \<Rightarrow> True)"

section \<open>Preset tables and preset resolution\<close>

fun PRESET_TOOLS :: "GithubToolPreset \<Rightarrow> string list" where
  "PRESET_TOOLS CodeReview =
     [''getPullRequest'', ''listPullRequests'', ''getFileContent'', ''listCommits'', ''getCommit'',
      ''getRepository'', ''listBranches'', ''searchCode'',
      ''addPullRequestComment'']"
| "PRESET_TOOLS IssueTriage =
     [''listIssues'', ''getIssue'', ''createIssue'', ''addIssueComment'', ''closeIssue'',
      ''getRepository'', ''searchRepositories'', ''searchCode'']"
| "PRESET_TOOLS RepoExplorer =
     [''getRepository'', ''listBranches'', ''getFileContent'',
      ''listPullRequests'', ''getPullRequest'',
      ''listIssues'', ''getIssue'',
      ''listCommits'', ''getCommit'',
      ''searchCode'', ''searchRepositories'']"
| "PRESET_TOOLS Maintainer =
     [''getRepository'', ''listBranches'', ''getFileContent'', ''createOrUpdateFile'',
      ''listPullRequests'', ''getPullRequest'', ''createPullRequest'', ''mergePullRequest'',
      ''addPullRequestComment'',
      ''listIssues'', ''getIssue'', ''createIssue'', ''addIssueComment'', ''closeIssue'',
      ''listCommits'', ''getCommit'',
      ''searchCode'', ''searchRepositories'']"

text \<open>
  A JavaScript \<^verbatim>\<open>Set<string>\<close> keeps its elements in insertion order without
  duplicates: a list, \<^verbatim>\<open>add\<close> appending an element that is not yet there.
\<close>

definition Set_add :: "string \<Rightarrow> string list \<Rightarrow> string list" where
  "Set_add t tools = (if t \<in> set tools then tools else tools @ [t])"

definition Set_has :: "string list \<Rightarrow> string \<Rightarrow> bool" where
  "Set_has tools t = (t \<in> set tools)"

text \<open>The inner loop \<^verbatim>\<open>for (const t of PRESET_TOOLS[p]) tools.add(t)\<close>.\<close>

fun addPresetTools :: "string list \<Rightarrow> string list \<Rightarrow> string list" where
  "addPresetTools [] tools = tools"
| "addPresetTools (t # ts) tools = addPresetTools ts (Set_add t tools)"

text \<open>The outer loop \<^verbatim>\<open>for (const p of presets)\<close>.\<close>

fun addPresets :: "GithubToolPreset list \<Rightarrow> string list \<Rightarrow> string list" where
  "addPresets [] tools = tools"
| "addPresets (p # ps) tools = addPresets ps (addPresetTools (PRESET_TOOLS p) tools)"

text \<open>
  \<^verbatim>\<open>resolvePresetTools\<close>. Its first line, \<^verbatim>\<open>if (!preset) return null\<close>, never fires on a
  value of the declared parameter type: the four identifiers are non-empty strings and
  every array, the empty one included, is truthy. The result type keeps the \<^verbatim>\<open>null\<close>.
\<close>

definition resolvePresetTools :: "PresetSelector \<Rightarrow> string list option" where
  "resolvePresetTools sel =
     (let presets = (case sel of Many ps \<Rightarrow> ps | Single p \<Rightarrow> [p])
      in Some (addPresets presets []))"

section \<open>Tool factories (packages/github-tools/src/tools/repository.ts)\<close>

text \<open>
  The read-only factories pass \<^verbatim>\<open>tool\<close> an object without a \<^verbatim>\<open>needsApproval\<close> key.
\<close>

definition getRepository :: "Octokit \<Rightarrow> tool" where
  "getRepository octokit = \<lparr>needsApproval = None, client = octokit\<rparr>"

definition listBranches :: "Octokit \<Rightarrow> tool" where
  "listBranches octokit = \<lparr>needsApproval = None, client = octokit\<rparr>"

definition getFileContent :: "Octokit \<Rightarrow> tool" where
  "getFileContent octokit = \<lparr>needsApproval = None, client = octokit\<rparr>"

text \<open>
  The write factories have the parameter \<^verbatim>\<open>{ needsApproval = true }: ToolOptions = {}\<close>:
  an omitted options argument is the empty object, and an omitted (undefined)
  \<^verbatim>\<open>needsApproval\<close> property is \<^verbatim>\<open>true\<close>. The value is stored under the
  \<^verbatim>\<open>needsApproval\<close> key of the tool.
\<close>

definition createBranch :: "Octokit \<Rightarrow> ToolOptions option \<Rightarrow> tool" where
  "createBranch octokit options =
     (let opts = (case options of None \<Rightarrow> \<lparr>opt_needsApproval = None\<rparr> | Some v \<Rightarrow> v);
          flag = (case opt_needsApproval opts of None \<Rightarrow> True | Some b \<Rightarrow> b)
      in \<lparr>needsApproval = Some flag, client = octokit\<rparr>)"

definition forkRepository :: "Octokit \<Rightarrow> ToolOptions option \<Rightarrow> tool" where
  "forkRepository octokit options =
     (let opts = (case options of None \<Rightarrow> \<lparr>opt_needsApproval = None\<rparr> | Some v \<Rightarrow> v);
          flag = (case opt_needsApproval opts of None \<Rightarrow> True | Some b \<Rightarrow> b)
      in \<lparr>needsApproval = Some flag, client = octokit\<rparr>)"

definition createRepository :: "Octokit \<Rightarrow> ToolOptions option \<Rightarrow> tool" where
  "createRepository octokit options =
     (let opts = (case options of None \<Rightarrow> \<lparr>opt_needsApproval = None\<rparr> | Some v \<Rightarrow> v);
          flag = (case opt_needsApproval opts of None \<Rightarrow> True | Some b \<Rightarrow> b)
      in \<lparr>needsApproval = Some flag, client = octokit\<rparr>)"

definition createOrUpdateFile :: "Octokit \<Rightarrow> ToolOptions option \<Rightarrow> tool" where
  "createOrUpdateFile octokit options =
     (let opts = (case options of None \<Rightarrow> \<lparr>opt_needsApproval = None\<rparr> | Some v \<Rightarrow> v);
          flag = (case opt_needsApproval opts of None \<Rightarrow> True | Some b \<Rightarrow> b)
      in \<lparr>needsApproval = Some flag, client = octokit\<rparr>)"

section \<open>Tool factories of the modules that are not part of the sources at hand\<close>

text \<open>
  Modelled from the spec: the factories of \<^verbatim>\<open>tools/pull-requests\<close>, \<^verbatim>\<open>tools/issues\<close>,
  \<^verbatim>\<open>tools/search\<close> and \<^verbatim>\<open>tools/commits\<close> are imported by \<^verbatim>\<open>index.ts\<close> but their
  files are missing. The specification says that a tool definition has "an optional
  approval flag (mutating tools only)" and that "non-mutating tools never carry an
  approval flag": a read-only factory builds a tool without the flag.
\<close>

definition listPullRequests :: "Octokit \<Rightarrow> tool" where
  \<comment> \<open>Modelled from the spec: read-only tool of the missing \<^verbatim>\<open>tools/pull-requests\<close>.\<close>
  "listPullRequests octokit = \<lparr>needsApproval = None, client = octokit\<rparr>"

definition getPullRequest :: "Octokit \<Rightarrow> tool" where
  \<comment> \<open>Modelled from the spec: read-only tool of the missing \<^verbatim>\<open>tools/pull-requests\<close>.\<close>
  "getPullRequest octokit = \<lparr>needsApproval = None, client = octokit\<rparr>"

definition listIssues :: "Octokit \<Rightarrow> tool" where
  \<comment> \<open>Modelled from the spec: read-only tool of the missing \<^verbatim>\<open>tools/issues\<close>.\<close>
  "listIssues octokit = \<lparr>needsApproval = None, client = octokit\<rparr>"

definition getIssue :: "Octokit \<Rightarrow> tool" where
  \<comment> \<open>Modelled from the spec: read-only tool of the missing \<^verbatim>\<open>tools/issues\<close>.\<close>
  "getIssue octokit = \<lparr>needsApproval = None, client = octokit\<rparr>"

definition searchCode :: "Octokit \<Rightarrow> tool" where
  \<comment> \<open>Modelled from the spec: read-only tool of the missing \<^verbatim>\<open>tools/search\<close>.\<close>
  "searchCode octokit = \<lparr>needsApproval = None, client = octokit\<rparr>"

definition searchRepositories :: "Octokit \<Rightarrow> tool" where
  \<comment> \<open>Modelled from the spec: read-only tool of the missing \<^verbatim>\<open>tools/search\<close>.\<close>
  "searchRepositories octokit = \<lparr>needsApproval = None, client = octokit\<rparr>"

definition listCommits :: "Octokit \<Rightarrow> tool" where
  \<comment> \<open>Modelled from the spec: read-only tool of the missing \<^verbatim>\<open>tools/commits\<close>.\<close>
  "listCommits octokit = \<lparr>needsApproval = None, client = octokit\<rparr>"

definition getCommit :: "Octokit \<Rightarrow> tool" where
  \<comment> \<open>Modelled from the spec: read-only tool of the missing \<^verbatim>\<open>tools/commits\<close>.\<close>
  "getCommit octokit = \<lparr>needsApproval = None, client = octokit\<rparr>"

text \<open>
  Modelled from the spec: the write factories of the missing \<^verbatim>\<open>tools/pull-requests\<close> and
  \<^verbatim>\<open>tools/issues\<close>. The specification says that the composer "resolves and injects the
  approval flag" for the mutating tools and that an unspecified flag means "approval
  required": the factory stores the flag it is given, and \<^verbatim>\<open>true\<close> when it is given none.
\<close>

definition createPullRequest :: "Octokit \<Rightarrow> ToolOptions option \<Rightarrow> tool" where
  \<comment> \<open>Modelled from the spec: write tool of the missing \<^verbatim>\<open>tools/pull-requests\<close>.\<close>
  "createPullRequest octokit options =
     (let opts = (case options of None \<Rightarrow> \<lparr>opt_needsApproval = None\<rparr> | Some v \<Rightarrow> v);
          flag = (case opt_needsApproval opts of None \<Rightarrow> True | Some b \<Rightarrow> b)
      in \<lparr>needsApproval = Some flag, client = octokit\<rparr>)"

definition mergePullRequest :: "Octokit \<Rightarrow> ToolOptions option \<Rightarrow> tool" where
  \<comment> \<open>Modelled from the spec: write tool of the missing \<^verbatim>\<open>tools/pull-requests\<close>.\<close>
  "mergePullRequest octokit options =
     (let opts = (case options of None \<Rightarrow> \<lparr>opt_needsApproval = None\<rparr> | Some v \<Rightarrow> v);
          flag = (case opt_needsApproval opts of None \<Rightarrow> True | Some b \<Rightarrow> b)
      in \<lparr>needsApproval = Some flag, client = octokit\<rparr>)"

definition addPullRequestComment :: "Octokit \<Rightarrow> ToolOptions option \<Rightarrow> tool" where
  \<comment> \<open>Modelled from the spec: write tool of the missing \<^verbatim>\<open>tools/pull-requests\<close>.\<close>
  "addPullRequestComment octokit options =
     (let opts = (case options of None \<Rightarrow> \<lparr>opt_needsApproval = None\<rparr> | Some v \<Rightarrow> v);
          flag = (case opt_needsApproval opts of None \<Rightarrow> True | Some b \<Rightarrow> b)
      in \<lparr>needsApproval = Some flag, client = octokit\<rparr>)"

definition createIssue :: "Octokit \<Rightarrow> ToolOptions option \<Rightarrow> tool" where
  \<comment> \<open>Modelled from the spec: write tool of the missing \<^verbatim>\<open>tools/issues\<close>.\<close>
  "createIssue octokit options =
     (let opts = (case options of None \<Rightarrow> \<lparr>opt_needsApproval = None\<rparr> | Some v \<Rightarrow> v);
          flag = (case opt_needsApproval opts of None \<Rightarrow> True | Some b \<Rightarrow> b)
      in \<lparr>needsApproval = Some flag, client = octokit\<rparr>)"

definition addIssueComment :: "Octokit \<Rightarrow> ToolOptions option \<Rightarrow> tool" where
  \<comment> \<open>Modelled from the spec: write tool of the missing \<^verbatim>\<open>tools/issues\<close>.\<close>
  "addIssueComment octokit options =
     (let opts = (case options of None \<Rightarrow> \<lparr>opt_needsApproval = None\<rparr> | Some v \<Rightarrow> v);
          flag = (case opt_needsApproval opts of None \<Rightarrow> True | Some b \<Rightarrow> b)
      in \<lparr>needsApproval = Some flag, client = octokit\<rparr>)"

definition closeIssue :: "Octokit \<Rightarrow> ToolOptions option \<Rightarrow> tool" where
  \<comment> \<open>Modelled from the spec: write tool of the missing \<^verbatim>\<open>tools/issues\<close>.\<close>
  "closeIssue octokit options =
     (let opts = (case options of None \<Rightarrow> \<lparr>opt_needsApproval = None\<rparr> | Some v \<Rightarrow> v);
          flag = (case opt_needsApproval opts of None \<Rightarrow> True | Some b \<Rightarrow> b)
      in \<lparr>needsApproval = Some flag, client = octokit\<rparr>)"

section \<open>The registry composer\<close>

text \<open>
  The local helper \<^verbatim>\<open>approval\<close> of \<^verbatim>\<open>createGithubTools\<close>:
  \<^verbatim>\<open>(name) => ({ needsApproval: resolveApproval(name, requireApproval) })\<close>.
\<close>

definition approval :: "ApprovalConfig \<Rightarrow> GithubWriteToolName \<Rightarrow> ToolOptions" where
  "approval config name = \<lparr>opt_needsApproval = Some (resolveApproval name config)\<rparr>"

text \<open>
  The object literal \<^verbatim>\<open>allTools\<close>, as the list of its entries in insertion order
  (the order \<^verbatim>\<open>Object.entries\<close> enumerates string keys in).
\<close>

definition allTools :: "Octokit \<Rightarrow> ApprovalConfig \<Rightarrow> registry" where
  "allTools octokit config =
     [(''getRepository'', getRepository octokit),
      (''listBranches'', listBranches octokit),
      (''getFileContent'', getFileContent octokit),
      (''listPullRequests'', listPullRequests octokit),
      (''getPullRequest'', getPullRequest octokit),
      (''listIssues'', listIssues octokit),
      (''getIssue'', getIssue octokit),
      (''searchCode'', searchCode octokit),
      (''searchRepositories'', searchRepositories octokit),
      (''listCommits'', listCommits octokit),
      (''getCommit'', getCommit octokit),
      (''createOrUpdateFile'', createOrUpdateFile octokit (Some (approval config CreateOrUpdateFile))),
      (''createPullRequest'', createPullRequest octokit (Some (approval config CreatePullRequest))),
      (''mergePullRequest'', mergePullRequest octokit (Some (approval config MergePullRequest))),
      (''addPullRequestComment'',
         addPullRequestComment octokit (Some (approval config AddPullRequestComment))),
      (''createIssue'', createIssue octokit (Some (approval config CreateIssue))),
      (''addIssueComment'', addIssueComment octokit (Some (approval config AddIssueComment))),
      (''closeIssue'', closeIssue octokit (Some (approval config CloseIssue)))]"

text \<open>
  \<^verbatim>\<open>createGithubTools({ token, requireApproval = true, preset })\<close>, the version with
  presets. \<^verbatim>\<open>preset ? resolvePresetTools(preset) : null\<close> tests the selector for
  truthiness: only the omitted selector is falsy. \<^verbatim>\<open>if (!allowed) return allTools\<close>
  fires on \<^verbatim>\<open>null\<close> only, a \<^verbatim>\<open>Set\<close> being an object; otherwise the entries are filtered
  by \<^verbatim>\<open>allowed.has(name)\<close>, which keeps their order.
\<close>

definition createGithubTools :: "GithubToolsOptions \<Rightarrow> registry" where
  "createGithubTools options =
     (let config = (case requireApproval options of None \<Rightarrow> Uniform True | Some c \<Rightarrow> c);
          octokit = createOctokit (token options);
          allowed = (case preset options of None \<Rightarrow> None | Some sel \<Rightarrow> resolvePresetTools sel);
          tools = allTools octokit config
      in case allowed of
           None \<Rightarrow> tools
         | Some names \<Rightarrow> filter (\<lambda>(name, t). Set_has names name) tools)"

text \<open>
  The older \<^verbatim>\<open>createGithubTools({ token, requireApproval = true })\<close>, which has no
  \<^verbatim>\<open>preset\<close> option and returns the object literal itself.
\<close>

record GithubToolsOptions_old =
  old_token :: string
  old_requireApproval :: "ApprovalConfig option"

definition createGithubTools_old :: "GithubToolsOptions_old \<Rightarrow> registry" where
  "createGithubTools_old options =
     (let config = (case old_requireApproval options of None \<Rightarrow> Uniform True | Some c \<Rightarrow> c);
          octokit = createOctokit (old_token options)
      in [(''getRepository'', getRepository octokit),
          (''listBranches'', listBranches octokit),
          (''getFileContent'', getFileContent octokit),
          (''listPullRequests'', listPullRequests octokit),
          (''getPullRequest'', getPullRequest octokit),
          (''listIssues'', listIssues octokit),
          (''getIssue'', getIssue octokit),
          (''searchCode'', searchCode octokit),
          (''searchRepositories'', searchRepositories octokit),
          (''listCommits'', listCommits octokit),
          (''getCommit'', getCommit octokit),
          (''createOrUpdateFile'',
             createOrUpdateFile octokit (Some (approval config CreateOrUpdateFile))),
          (''createPullRequest'',
             createPullRequest octokit (Some (approval config CreatePullRequest))),
          (''mergePullRequest'',
             mergePullRequest octokit (Some (approval config MergePullRequest))),
          (''addPullRequestComment'',
             addPullRequestComment octokit (Some (approval config AddPullRequestComment))),
          (''createIssue'', createIssue octokit (Some (approval config CreateIssue))),
          (''addIssueComment'', addIssueComment octokit (Some (approval config AddIssueComment))),
          (''closeIssue'', closeIssue octokit (Some (approval config CloseIssue)))])"

text \<open>Reading a registry: its keys, and the tool stored under a key.\<close>

definition registryKeys :: "registry \<Rightarrow> string list" where
  "registryKeys reg = map fst reg"

definition registryGet :: "registry \<Rightarrow> string \<rightharpoonup> tool" where
  "registryGet reg name = map_of reg name"

text \<open>
  The eighteen tool names, as the package documentation lists them (README, "Available
  Tools": Repository, Pull Requests, Issues, Commits, Search).
\<close>

definition knownToolNames :: "string list" where
  "knownToolNames =
     [''getRepository'', ''listBranches'', ''getFileContent'', ''createOrUpdateFile'',
      ''listPullRequests'', ''getPullRequest'', ''createPullRequest'', ''mergePullRequest'',
      ''addPullRequestComment'',
      ''listIssues'', ''getIssue'', ''createIssue'', ''addIssueComment'', ''closeIssue'',
      ''listCommits'', ''getCommit'',
      ''searchCode'', ''searchRepositories'']"

section \<open>Execution of the branch-creation tool (createBranch in tools/repository.ts)\<close>

text \<open>
  The execute function awaits calls of the REST client one after the other. The remote
  side is a parameter: for each endpoint a function from the request to either a failure
  (the rejected promise, which the execute function does not catch) or the fields of the
  response that the code reads. The execute function is modelled with the log of the
  calls it makes, in the order it makes them.
\<close>

datatype remote_error = RequestError nat

datatype remote_call =
    ReposGet string string
  | GitGetRef string string string
  | GitCreateRef string string string string

text \<open>The fields read from the response of \<^verbatim>\<open>git.createRef\<close>.\<close>

record created_ref =
  data_ref :: string
  data_object_sha :: string
  data_url :: string

text \<open>
  \<^verbatim>\<open>repos.get({ owner, repo })\<close> answers with \<^verbatim>\<open>data.default_branch\<close>,
  \<^verbatim>\<open>git.getRef({ owner, repo, ref })\<close> with \<^verbatim>\<open>data.object.sha\<close>,
  \<^verbatim>\<open>git.createRef({ owner, repo, ref, sha })\<close> with the created reference.
\<close>

record git_remote =
  repos_get :: "string \<Rightarrow> string \<Rightarrow> remote_error + string"
  git_getRef :: "string \<Rightarrow> string \<Rightarrow> string \<Rightarrow> remote_error + string"
  git_createRef :: "string \<Rightarrow> string \<Rightarrow> string \<Rightarrow> string \<Rightarrow> remote_error + created_ref"

text \<open>The validated input: \<^verbatim>\<open>from\<close> is optional.\<close>

record createBranch_input =
  cb_owner :: string
  cb_repo :: string
  cb_branch :: string
  cb_from :: "string option"

record createBranch_output =
  out_ref :: string
  out_sha :: string
  out_url :: string

text \<open>
  \<^verbatim>\<open>sha.match(/^[0-9a-f]{40}$/i)\<close>: the whole string is exactly 40 hexadecimal digits
  of either case.
\<close>

definition isHexDigit :: "char \<Rightarrow> bool" where
  "isHexDigit c = (c \<in> set ''0123456789abcdefABCDEF'')"

definition matchesSha :: "string \<Rightarrow> bool" where
  "matchesSha sha = (length sha = 40 \<and> list_all isHexDigit sha)"

text \<open>
  The operand of the template literal,
  \<^verbatim>\<open>from || (await octokit.rest.repos.get({ owner, repo })).data.default_branch\<close>:
  an omitted or empty \<^verbatim>\<open>from\<close> is falsy and makes the call.
\<close>

definition sourceBranch ::
  "git_remote \<Rightarrow> string \<Rightarrow> string \<Rightarrow> string option \<Rightarrow> remote_call list \<times> (remote_error + string)"
where
  "sourceBranch api owner repo frm =
     (case frm of
        Some f \<Rightarrow>
          if f \<noteq> [] then ([], Inr f)
          else ([ReposGet owner repo], repos_get api owner repo)
      | None \<Rightarrow> ([ReposGet owner repo], repos_get api owner repo))"

text \<open>
  \<^verbatim>\<open>let sha = from; if (!sha || !sha.match(...)) { ...; sha = ref.object.sha }\<close>:
  the value of \<^verbatim>\<open>sha\<close> after the conditional, with the calls made to get it.
\<close>

definition resolveSha ::
  "git_remote \<Rightarrow> string \<Rightarrow> string \<Rightarrow> string option \<Rightarrow> remote_call list \<times> (remote_error + string)"
where
  "resolveSha api owner repo frm =
     (if (case frm of None \<Rightarrow> True | Some sha \<Rightarrow> sha = [] \<or> \<not> matchesSha sha) then
        (case sourceBranch api owner repo frm of
           (calls, Inl e) \<Rightarrow> (calls, Inl e)
         | (calls, Inr name) \<Rightarrow>
             (calls @ [GitGetRef owner repo (''heads/'' @ name)],
              git_getRef api owner repo (''heads/'' @ name)))
      else (case frm of Some sha \<Rightarrow> ([], Inr sha) | None \<Rightarrow> ([], Inr [])))"

text \<open>
  The execute function of \<^verbatim>\<open>createBranch\<close>: the log of the remote calls and the
  returned object, or the failure of the first call that fails. (The last case of
  \<open>resolveSha\<close> is never reached: an omitted \<^verbatim>\<open>from\<close> takes the first branch.)
\<close>

definition createBranch_execute ::
  "git_remote \<Rightarrow> createBranch_input \<Rightarrow> remote_call list \<times> (remote_error + createBranch_output)"
where
  "createBranch_execute api inp =
     (case resolveSha api (cb_owner inp) (cb_repo inp) (cb_from inp) of
        (calls, Inl e) \<Rightarrow> (calls, Inl e)
      | (calls, Inr sha) \<Rightarrow>
          (calls @ [GitCreateRef (cb_owner inp) (cb_repo inp) (''refs/heads/'' @ cb_branch inp) sha],
           (case git_createRef api (cb_owner inp) (cb_repo inp)
                   (''refs/heads/'' @ cb_branch inp) sha of
              Inl e \<Rightarrow> Inl e
            | Inr data \<Rightarrow>
                Inr \<lparr>out_ref = data_ref data, out_sha = data_object_sha data,
                     out_url = data_url data\<rparr>)))"

section \<open>File contents: the encodings of getFileContent and createOrUpdateFile\<close>

text \<open>
  \<^verbatim>\<open>createOrUpdateFile\<close> encodes with \<^verbatim>\<open>Buffer.from(content).toString('base64')\<close> and
  \<^verbatim>\<open>getFileContent\<close> decodes with
  \<^verbatim>\<open>Buffer.from(data.content, 'base64').toString('utf-8')\<close>. The functions of
  \<^verbatim>\<open>Buffer\<close> belong to the platform; they are modelled as documented: a JavaScript
  string is a sequence of 16-bit code units, \<^verbatim>\<open>Buffer.from(string)\<close> writes it as UTF-8
  and replaces a surrogate code unit without its partner by U+FFFD, \<^verbatim>\<open>toString('utf-8')\<close>
  reads UTF-8 and replaces what is not well-formed by U+FFFD, and the base64 text uses
  the standard alphabet with padding. Base64 text is kept as a \<open>string\<close>.
\<close>

type_synonym js_string = "16 word list"

definition isHighSurrogate :: "16 word \<Rightarrow> bool" where
  "isHighSurrogate u = (0xD800 \<le> unat u \<and> unat u \<le> 0xDBFF)"

definition isLowSurrogate :: "16 word \<Rightarrow> bool" where
  "isLowSurrogate u = (0xDC00 \<le> unat u \<and> unat u \<le> 0xDFFF)"

definition isSurrogate :: "16 word \<Rightarrow> bool" where
  "isSurrogate u = (isHighSurrogate u \<or> isLowSurrogate u)"

text \<open>The code point of a code unit that is not part of a pair.\<close>

definition unitCodePoint :: "16 word \<Rightarrow> nat" where
  "unitCodePoint u = (if isSurrogate u then 0xFFFD else unat u)"

text \<open>The code points a string is written as: a high surrogate joins the low one after it.\<close>

fun codePoints :: "js_string \<Rightarrow> nat list" where
  "codePoints [] = []"
| "codePoints [u] = [unitCodePoint u]"
| "codePoints (u # v # us) =
     (if isHighSurrogate u \<and> isLowSurrogate v
      then (0x10000 + (unat u - 0xD800) * 0x400 + (unat v - 0xDC00)) # codePoints us
      else unitCodePoint u # codePoints (v # us))"

text \<open>The UTF-8 bytes of a code point.\<close>

definition utf8Bytes :: "nat \<Rightarrow> 8 word list" where
  "utf8Bytes c =
     (if c < 0x80 then [of_nat c]
      else if c < 0x800 then [of_nat (0xC0 + c div 0x40), of_nat (0x80 + c mod 0x40)]
      else if c < 0x10000 then
        [of_nat (0xE0 + c div 0x1000), of_nat (0x80 + c div 0x40 mod 0x40),
         of_nat (0x80 + c mod 0x40)]
      else
        [of_nat (0xF0 + c div 0x40000), of_nat (0x80 + c div 0x1000 mod 0x40),
         of_nat (0x80 + c div 0x40 mod 0x40), of_nat (0x80 + c mod 0x40)])"

text \<open>\<^verbatim>\<open>Buffer.from(content)\<close>, the encoding being UTF-8 by default.\<close>

definition utf8Encode :: "js_string \<Rightarrow> 8 word list" where
  "utf8Encode s = concat (map utf8Bytes (codePoints s))"

definition isContinuation :: "nat \<Rightarrow> bool" where
  "isContinuation b = (0x80 \<le> b \<and> b \<le> 0xBF)"

text \<open>
  The range of the byte after a lead byte of a three- or four-byte sequence: it excludes
  the overlong forms, the surrogates and the code points above U+10FFFF.
\<close>

definition secondByteOk :: "nat \<Rightarrow> nat \<Rightarrow> bool" where
  "secondByteOk b c =
     ((if b = 0xE0 then 0xA0 else if b = 0xF0 then 0x90 else 0x80) \<le> c \<and>
      c \<le> (if b = 0xED then 0x9F else if b = 0xF4 then 0x8F else 0xBF))"

text \<open>
  The code points read from UTF-8 bytes. A byte that cannot start or continue a sequence
  ends the sequence read so far, which becomes U+FFFD, and is read again as a first byte.
\<close>

fun decodePoints :: "nat list \<Rightarrow> nat list" where
  "decodePoints [] = []"
| "decodePoints (b # bs) =
     (if b < 0x80 then b # decodePoints bs
      else if 0xC2 \<le> b \<and> b \<le> 0xDF then
        (case bs of
           [] \<Rightarrow> [0xFFFD]
         | c # cs \<Rightarrow>
             if isContinuation c then ((b - 0xC0) * 0x40 + (c - 0x80)) # decodePoints cs
             else 0xFFFD # decodePoints bs)
      else if 0xE0 \<le> b \<and> b \<le> 0xEF then
        (case bs of
           [] \<Rightarrow> [0xFFFD]
         | c # cs \<Rightarrow>
             if secondByteOk b c then
               (case cs of
                  [] \<Rightarrow> [0xFFFD]
                | d # ds \<Rightarrow>
                    if isContinuation d
                    then ((b - 0xE0) * 0x1000 + (c - 0x80) * 0x40 + (d - 0x80)) # decodePoints ds
                    else 0xFFFD # decodePoints cs)
             else 0xFFFD # decodePoints bs)
      else if 0xF0 \<le> b \<and> b \<le> 0xF4 then
        (case bs of
           [] \<Rightarrow> [0xFFFD]
         | c # cs \<Rightarrow>
             if secondByteOk b c then
               (case cs of
                  [] \<Rightarrow> [0xFFFD]
                | d # ds \<Rightarrow>
                    if isContinuation d then
                      (case ds of
                         [] \<Rightarrow> [0xFFFD]
                       | e # es \<Rightarrow>
                           if isContinuation e
                           then ((b - 0xF0) * 0x40000 + (c - 0x80) * 0x1000 + (d - 0x80) * 0x40
                                  + (e - 0x80)) # decodePoints es
                           else 0xFFFD # decodePoints ds)
                    else 0xFFFD # decodePoints cs)
             else 0xFFFD # decodePoints bs)
      else 0xFFFD # decodePoints bs)"

text \<open>The code units of a code point: itself, or a surrogate pair above U+FFFF.\<close>

definition utf16Units :: "nat \<Rightarrow> 16 word list" where
  "utf16Units c =
     (if c < 0x10000 then [of_nat c]
      else [of_nat (0xD800 + (c - 0x10000) div 0x400),
            of_nat (0xDC00 + (c - 0x10000) mod 0x400)])"

text \<open>\<^verbatim>\<open>buffer.toString('utf-8')\<close>.\<close>

definition utf8Decode :: "8 word list \<Rightarrow> js_string" where
  "utf8Decode bs = concat (map utf16Units (decodePoints (map unat bs)))"

definition base64Alphabet :: string where
  "base64Alphabet = ''ABCDEFGHIJKLMNOPQRSTUVWXYZabcdefghijklmnopqrstuvwxyz0123456789+/''"

definition base64Char :: "nat \<Rightarrow> char" where
  "base64Char n = base64Alphabet ! n"

text \<open>Three bytes become four characters; the last group is padded with \<^verbatim>\<open>=\<close>.\<close>

fun base64Groups :: "nat list \<Rightarrow> string" where
  "base64Groups [] = []"
| "base64Groups [a] =
     [base64Char (a div 4), base64Char (a mod 4 * 16), CHR ''='', CHR ''='']"
| "base64Groups [a, b] =
     [base64Char (a div 4), base64Char (a mod 4 * 16 + b div 16), base64Char (b mod 16 * 4),
      CHR ''='']"
| "base64Groups (a # b # c # bs) =
     [base64Char (a div 4), base64Char (a mod 4 * 16 + b div 16),
      base64Char (b mod 16 * 4 + c div 64), base64Char (c mod 64)] @ base64Groups bs"

text \<open>\<^verbatim>\<open>buffer.toString('base64')\<close>.\<close>

definition base64Encode :: "8 word list \<Rightarrow> string" where
  "base64Encode bs = base64Groups (map unat bs)"

fun position :: "'a \<Rightarrow> 'a list \<Rightarrow> nat option" where
  "position x [] = None"
| "position x (y # ys) = (if x = y then Some 0 else map_option Suc (position x ys))"

text \<open>
  The value of a base64 character; the decoder also accepts the characters \<^verbatim>\<open>-\<close> and
  \<^verbatim>\<open>_\<close> of the URL-safe alphabet.
\<close>

definition base64Value :: "char \<Rightarrow> nat option" where
  "base64Value c =
     (if c = CHR ''-'' then Some 62
      else if c = CHR ''_'' then Some 63
      else position c base64Alphabet)"

text \<open>
  The decoder is lenient: it skips the characters that are not base64 characters (the
  line breaks of a response, for one) and stops at the first \<^verbatim>\<open>=\<close>.
\<close>

fun sextets :: "string \<Rightarrow> nat list" where
  "sextets [] = []"
| "sextets (c # cs) =
     (if c = CHR ''='' then []
      else case base64Value c of Some v \<Rightarrow> v # sextets cs | None \<Rightarrow> sextets cs)"

text \<open>Four values of six bits become three bytes; an incomplete group gives the bytes it covers.\<close>

fun sextetBytes :: "nat list \<Rightarrow> nat list" where
  "sextetBytes (p # q # r # s # rest) =
     [p * 4 + q div 16, q mod 16 * 16 + r div 4, r mod 4 * 64 + s] @ sextetBytes rest"
| "sextetBytes [p, q, r] = [p * 4 + q div 16, q mod 16 * 16 + r div 4]"
| "sextetBytes [p, q] = [p * 4 + q div 16]"
| "sextetBytes [p] = []"
| "sextetBytes [] = []"

text \<open>\<^verbatim>\<open>Buffer.from(text, 'base64')\<close>.\<close>

definition base64Decode :: "string \<Rightarrow> 8 word list" where
  "base64Decode s = map of_nat (sextetBytes (sextets s))"

text \<open>The encoding step of \<^verbatim>\<open>createOrUpdateFile\<close>: \<^verbatim>\<open>Buffer.from(content).toString('base64')\<close>.\<close>

definition encodeContent :: "js_string \<Rightarrow> string" where
  "encodeContent content = base64Encode (utf8Encode content)"

text \<open>
  The decoding step of \<^verbatim>\<open>getFileContent\<close>:
  \<^verbatim>\<open>Buffer.from(data.content, 'base64').toString('utf-8')\<close>.
\<close>

definition decodeContent :: "string \<Rightarrow> js_string" where
  "decodeContent s = utf8Decode (base64Decode s)"

text \<open>
  A string is well-formed when every surrogate code unit is part of a pair, a high
  surrogate followed by a low one; \<open>isScalar\<close> is the range of the code points of such
  strings.
\<close>

fun wellFormed :: "js_string \<Rightarrow> bool" where
  "wellFormed [] = True"
| "wellFormed [u] = (\<not> isSurrogate u)"
| "wellFormed (u # v # us) =
     (if isHighSurrogate u \<and> isLowSurrogate v then wellFormed us
      else \<not> isSurrogate u \<and> wellFormed (v # us))"

definition isScalar :: "nat \<Rightarrow> bool" where
  "isScalar c = (c < 0x110000 \<and> \<not> (0xD800 \<le> c \<and> c \<le> 0xDFFF))"

section \<open>Execution of getFileContent and createOrUpdateFile\<close>

text \<open>
  The answer of \<^verbatim>\<open>repos.getContent\<close> is an array of entries for a directory and one
  object otherwise; only the fields the code reads are kept, and \<open>entry_sha\<close> stands for
  the fields of an entry that the listing drops.
\<close>

record content_entry =
  entry_name :: string
  entry_type :: string
  entry_path :: string
  entry_sha :: string

record content_object =
  object_type :: string
  object_path :: string
  object_sha :: string
  object_size :: nat
  object_content :: string

datatype content_data = ContentArray "content_entry list" | ContentObject content_object

record getFileContent_input =
  gf_owner :: string
  gf_repo :: string
  gf_path :: string
  gf_ref :: "string option"

record listing_entry =
  listed_name :: string
  listed_type :: string
  listed_path :: string

record file_output =
  file_path :: string
  file_sha :: string
  file_size :: nat
  file_content :: js_string

text \<open>
  The three shapes of the result: \<^verbatim>\<open>{ type: 'directory', entries }\<close>,
  \<^verbatim>\<open>{ type: data.type, path: data.path }\<close> and
  \<^verbatim>\<open>{ type: 'file', path, sha, size, content }\<close>.
\<close>

datatype getFileContent_output =
    DirectoryResult "listing_entry list"
  | NodeResult string string
  | FileResult file_output

text \<open>The execute function of \<^verbatim>\<open>getFileContent\<close>; \<open>getContent\<close> is the remote endpoint.\<close>

definition getFileContent_execute ::
  "(string \<Rightarrow> string \<Rightarrow> string \<Rightarrow> string option \<Rightarrow> remote_error + content_data) \<Rightarrow>
     getFileContent_input \<Rightarrow> remote_error + getFileContent_output"
where
  "getFileContent_execute getContent inp =
     (case getContent (gf_owner inp) (gf_repo inp) (gf_path inp) (gf_ref inp) of
        Inl e \<Rightarrow> Inl e
      | Inr (ContentArray entries) \<Rightarrow>
          Inr (DirectoryResult
                (map (\<lambda>e. \<lparr>listed_name = entry_name e, listed_type = entry_type e,
                            listed_path = entry_path e\<rparr>) entries))
      | Inr (ContentObject d) \<Rightarrow>
          if object_type d \<noteq> ''file'' then Inr (NodeResult (object_type d) (object_path d))
          else Inr (FileResult
                 \<lparr>file_path = object_path d, file_sha = object_sha d,
                  file_size = object_size d,
                  file_content = decodeContent (object_content d)\<rparr>))"

record createOrUpdateFile_input =
  cf_owner :: string
  cf_repo :: string
  cf_path :: string
  cf_message :: string
  cf_content :: js_string
  cf_branch :: "string option"
  cf_sha :: "string option"

text \<open>The request passed to \<^verbatim>\<open>repos.createOrUpdateFileContents\<close>.\<close>

record file_request =
  req_owner :: string
  req_repo :: string
  req_path :: string
  req_message :: string
  req_content :: string
  req_branch :: "string option"
  req_sha :: "string option"

text \<open>
  Its answer: \<^verbatim>\<open>data.content\<close> may be absent (path and sha are read with \<^verbatim>\<open>?.\<close>),
  \<^verbatim>\<open>data.commit\<close> is not.
\<close>

record file_response =
  resp_content :: "(string \<times> string) option"
  resp_commit_sha :: string
  resp_commit_html_url :: string

record createOrUpdateFile_output =
  written_path :: "string option"
  written_sha :: "string option"
  commitSha :: string
  commitUrl :: string

text \<open>The request that the execute function of \<^verbatim>\<open>createOrUpdateFile\<close> sends.\<close>

definition createOrUpdateFile_request :: "createOrUpdateFile_input \<Rightarrow> file_request" where
  "createOrUpdateFile_request inp =
     (let encoded = encodeContent (cf_content inp)
      in \<lparr>req_owner = cf_owner inp, req_repo = cf_repo inp, req_path = cf_path inp,
          req_message = cf_message inp, req_content = encoded, req_branch = cf_branch inp,
          req_sha = cf_sha inp\<rparr>)"

text \<open>The execute function of \<^verbatim>\<open>createOrUpdateFile\<close>: the request sent and the result.\<close>

definition createOrUpdateFile_execute ::
  "(file_request \<Rightarrow> remote_error + file_response) \<Rightarrow> createOrUpdateFile_input \<Rightarrow>
     file_request \<times> (remote_error + createOrUpdateFile_output)"
where
  "createOrUpdateFile_execute createOrUpdateFileContents inp =
     (let request = createOrUpdateFile_request inp
      in (request,
          case createOrUpdateFileContents request of
            Inl e \<Rightarrow> Inl e
          | Inr data \<Rightarrow>
              Inr \<lparr>written_path = map_option fst (resp_content data),
                   written_sha = map_option snd (resp_content data),
                   commitSha = resp_commit_sha data,
                   commitUrl = resp_commit_html_url data\<rparr>))"

section \<open>Approval resolution: properties\<close>

text \<open>
  C3: for every mutating-tool name \<open>t\<close> and every boolean \<open>b\<close>, resolving the approval
  flag of \<open>t\<close> under the uniform configuration \<open>b\<close> returns \<open>b\<close>, whatever \<open>t\<close> is.
\<close>

theorem resolveApproval_uniform: "resolveApproval t (Uniform b) = b"
  by simp

text \<open>
  C4: for every mutating-tool name \<open>t\<close> and every partial per-tool mapping \<open>m\<close>,
  resolving the approval flag of \<open>t\<close> under \<open>m\<close> returns the entry of \<open>m\<close> for \<open>t\<close> when
  there is one, and \<open>True\<close> when \<open>t\<close> has no entry in \<open>m\<close>.
\<close>

theorem resolveApproval_perTool:
  "resolveApproval t (PerTool m) = (case m t of Some v \<Rightarrow> v | None \<Rightarrow> True)"
  by simp

section \<open>Preset resolution and the key set of the registry\<close>

lemma set_Set_add: "set (Set_add t tools) = insert t (set tools)"
  by (auto simp: Set_add_def)

lemma set_addPresetTools: "set (addPresetTools ts tools) = set ts \<union> set tools"
  by (induction ts arbitrary: tools) (auto simp: set_Set_add)

lemma set_addPresets:
  "set (addPresets ps tools) = (\<Union>p\<in>set ps. set (PRESET_TOOLS p)) \<union> set tools"
  by (induction ps arbitrary: tools) (auto simp: set_addPresetTools)

lemma keys_allTools:
  "map fst (allTools octokit config) =
     [''getRepository'', ''listBranches'', ''getFileContent'', ''listPullRequests'',
      ''getPullRequest'', ''listIssues'', ''getIssue'', ''searchCode'', ''searchRepositories'',
      ''listCommits'', ''getCommit'', ''createOrUpdateFile'', ''createPullRequest'',
      ''mergePullRequest'', ''addPullRequestComment'', ''createIssue'', ''addIssueComment'',
      ''closeIssue'']"
  by (simp add: allTools_def)

lemma set_keys_allTools: "set (map fst (allTools octokit config)) = set knownToolNames"
  unfolding keys_allTools knownToolNames_def by auto

lemma distinct_allTools: "distinct (map fst (allTools octokit config))"
  by (simp add: allTools_def)

lemma map_fst_filter: "map fst (filter (\<lambda>(name, t). P name) xs) = filter P (map fst xs)"
  by (induction xs) auto

lemma map_of_filter_key:
  "map_of (filter (\<lambda>(name, t). P name) xs) n = (if P n then map_of xs n else None)"
  by (induction xs) auto

lemma registryKeys_createGithubTools:
  "registryKeys (createGithubTools options) =
     (case preset options of
        None \<Rightarrow>
          map fst (allTools (createOctokit (token options))
            (case requireApproval options of None \<Rightarrow> Uniform True | Some c \<Rightarrow> c))
      | Some sel \<Rightarrow>
          filter (\<lambda>n. n \<in> set (addPresets (case sel of Many ps \<Rightarrow> ps | Single p \<Rightarrow> [p]) []))
            (map fst (allTools (createOctokit (token options))
              (case requireApproval options of None \<Rightarrow> Uniform True | Some c \<Rightarrow> c))))"
  by (simp add: createGithubTools_def registryKeys_def resolvePresetTools_def Let_def
      map_fst_filter Set_has_def split: option.splits)

lemma registryGet_createGithubTools:
  "registryGet (createGithubTools options) name =
     (if (case preset options of
            None \<Rightarrow> True
          | Some sel \<Rightarrow>
              name \<in> (\<Union>p\<in>set (case sel of Many ps \<Rightarrow> ps | Single p \<Rightarrow> [p]).
                         set (PRESET_TOOLS p)))
      then map_of (allTools (createOctokit (token options))
                     (case requireApproval options of None \<Rightarrow> Uniform True | Some c \<Rightarrow> c)) name
      else None)"
  by (simp add: registryGet_def createGithubTools_def resolvePresetTools_def Set_has_def
      set_addPresets map_of_filter_key split: option.splits)

lemma set_filter_keys:
  "set (filter P (map fst (allTools oc cfg))) = set knownToolNames \<inter> {n. P n}"
proof -
  have "set (filter P (map fst (allTools oc cfg))) = set (map fst (allTools oc cfg)) \<inter> {n. P n}"
    by auto
  then show ?thesis by (simp only: set_keys_allTools)
qed

lemma keys_preset:
  assumes "preset options = Some sel"
  shows "set (registryKeys (createGithubTools options)) =
     set knownToolNames \<inter>
       (\<Union>p\<in>set (case sel of Many ps \<Rightarrow> ps | Single p \<Rightarrow> [p]). set (PRESET_TOOLS p))"
  unfolding registryKeys_createGithubTools assms option.case set_filter_keys set_addPresets
  by auto

lemma keys_Many:
  "set (registryKeys (createGithubTools (options\<lparr>preset := Some (Many ps)\<rparr>))) =
     set knownToolNames \<inter> (\<Union>p\<in>set ps. set (PRESET_TOOLS p))"
  using keys_preset [of "options\<lparr>preset := Some (Many ps)\<rparr>" "Many ps"] by simp

lemma keys_Single:
  "set (registryKeys (createGithubTools (options\<lparr>preset := Some (Single p)\<rparr>))) =
     set knownToolNames \<inter> set (PRESET_TOOLS p)"
  using keys_preset [of "options\<lparr>preset := Some (Single p)\<rparr>" "Single p"] by simp

lemma create_Many:
  "createGithubTools (options\<lparr>preset := Some (Many ps)\<rparr>) =
     filter (\<lambda>(name, t). name \<in> (\<Union>p\<in>set ps. set (PRESET_TOOLS p)))
       (allTools (createOctokit (token options))
          (case requireApproval options of None \<Rightarrow> Uniform True | Some c \<Rightarrow> c))"
  by (simp add: createGithubTools_def resolvePresetTools_def Set_has_def set_addPresets)

lemma keys_full:
  "preset options = None \<Longrightarrow>
     set (registryKeys (createGithubTools options)) = set knownToolNames"
  unfolding registryKeys_createGithubTools by (simp only: option.case set_keys_allTools)

lemma keys_sub: "set (registryKeys (createGithubTools options)) \<subseteq> set knownToolNames"
proof (cases "preset options")
  case None
  then show ?thesis by (simp only: keys_full subset_refl)
next
  case (Some sel)
  have "set (filter P (map fst (allTools oc cfg))) \<subseteq> set knownToolNames" for P oc cfg
    using filter_is_subset [of P "map fst (allTools oc cfg)"] by (simp only: set_keys_allTools)
  then show ?thesis unfolding registryKeys_createGithubTools Some option.case .
qed

lemma known18: "distinct knownToolNames \<and> length knownToolNames = 18"
  by (simp add: knownToolNames_def)

text \<open>
  C1: for every input of \<open>createGithubTools\<close> (any token, any approval configuration, any
  preset selector or none) the key set of the returned registry is a subset of the 18
  known tool names, and when the preset selector is omitted the key set is exactly the
  full enumeration of 18 names.
\<close>

theorem registry_keys_known:
  "set (registryKeys (createGithubTools options)) \<subseteq> set knownToolNames
   \<and> (preset options = None \<longrightarrow>
        set (registryKeys (createGithubTools options)) = set knownToolNames)
   \<and> distinct knownToolNames \<and> length knownToolNames = 18"
  using keys_sub keys_full known18 by blast

theorem registry_keys_known_witness:
  "preset \<lparr>token = ''t'', requireApproval = None, preset = None\<rparr> = None
   \<and> set (registryKeys (createGithubTools \<lparr>token = ''t'', requireApproval = None, preset = None\<rparr>))
       = set knownToolNames"
  using registry_keys_known [of "\<lparr>token = ''t'', requireApproval = None, preset = None\<rparr>"]
  by simp

text \<open>
  C2: for all preset identifiers \<open>P1\<close> and \<open>P2\<close>, the registry built with the preset
  \<open>[P1, P2]\<close> has as its key set the union of the key sets of the registries built with
  \<open>P1\<close> alone and with \<open>P2\<close> alone; the order of the identifiers in the list does not
  change the registry.
\<close>

theorem preset_pair_union:
  "set (registryKeys (createGithubTools (options\<lparr>preset := Some (Many [P1, P2])\<rparr>))) =
     set (registryKeys (createGithubTools (options\<lparr>preset := Some (Single P1)\<rparr>))) \<union>
     set (registryKeys (createGithubTools (options\<lparr>preset := Some (Single P2)\<rparr>)))
   \<and> createGithubTools (options\<lparr>preset := Some (Many [P1, P2])\<rparr>) =
     createGithubTools (options\<lparr>preset := Some (Many [P2, P1])\<rparr>)"
proof
  show "set (registryKeys (createGithubTools (options\<lparr>preset := Some (Many [P1, P2])\<rparr>))) =
     set (registryKeys (createGithubTools (options\<lparr>preset := Some (Single P1)\<rparr>))) \<union>
     set (registryKeys (createGithubTools (options\<lparr>preset := Some (Single P2)\<rparr>)))"
    unfolding keys_Many keys_Single by auto
  have "(\<Union>p\<in>set [P1, P2]. set (PRESET_TOOLS p)) = (\<Union>p\<in>set [P2, P1]. set (PRESET_TOOLS p))"
    by auto
  then show "createGithubTools (options\<lparr>preset := Some (Many [P1, P2])\<rparr>) =
     createGithubTools (options\<lparr>preset := Some (Many [P2, P1])\<rparr>)"
    unfolding create_Many by (simp only:)
qed

text \<open>
  C9: for every token and approval configuration, \<open>createGithubTools\<close> called with the
  empty array as preset selector returns a registry without keys: the empty array is a
  supplied selector whose union of member sets is empty, not the omitted selector.
\<close>

theorem empty_preset_array_empty_registry:
  "createGithubTools (options\<lparr>preset := Some (Many [])\<rparr>) = []
   \<and> registryKeys (createGithubTools (options\<lparr>preset := Some (Many [])\<rparr>)) = []"
  by (simp add: create_Many registryKeys_def allTools_def)

text \<open>
  C8: for every token and every approval configuration, the preset-capable
  \<open>createGithubTools\<close> called without a preset selector builds the same registry as the
  older \<open>createGithubTools\<close> without presets: the same keys and, under every key, the
  same approval flag.
\<close>

theorem no_preset_equals_old_composer:
  "createGithubTools \<lparr>token = tok, requireApproval = ra, preset = None\<rparr> =
     createGithubTools_old \<lparr>old_token = tok, old_requireApproval = ra\<rparr>
   \<and> registryKeys (createGithubTools \<lparr>token = tok, requireApproval = ra, preset = None\<rparr>) =
     registryKeys (createGithubTools_old \<lparr>old_token = tok, old_requireApproval = ra\<rparr>)
   \<and> (\<forall>name. map_option needsApproval
          (registryGet (createGithubTools \<lparr>token = tok, requireApproval = ra, preset = None\<rparr>)
             name) =
        map_option needsApproval
          (registryGet (createGithubTools_old \<lparr>old_token = tok, old_requireApproval = ra\<rparr>)
             name))"
proof -
  have "createGithubTools \<lparr>token = tok, requireApproval = ra, preset = None\<rparr> =
     createGithubTools_old \<lparr>old_token = tok, old_requireApproval = ra\<rparr>"
    by (simp add: createGithubTools_def createGithubTools_old_def allTools_def)
  then show ?thesis by simp
qed

section \<open>Approval flags of the tools\<close>

text \<open>
  C10: each write-tool factory of \<^verbatim>\<open>tools/repository.ts\<close> (\<open>createBranch\<close>,
  \<open>forkRepository\<close>, \<open>createRepository\<close>, \<open>createOrUpdateFile\<close>), called without an
  options argument or with an options object that omits \<open>needsApproval\<close>, builds a tool
  whose \<open>needsApproval\<close> flag is true.
\<close>

theorem write_factories_default_needsApproval:
  "needsApproval (createBranch octokit None) = Some True
   \<and> needsApproval (createBranch octokit (Some \<lparr>opt_needsApproval = None\<rparr>)) = Some True
   \<and> needsApproval (forkRepository octokit None) = Some True
   \<and> needsApproval (forkRepository octokit (Some \<lparr>opt_needsApproval = None\<rparr>)) = Some True
   \<and> needsApproval (createRepository octokit None) = Some True
   \<and> needsApproval (createRepository octokit (Some \<lparr>opt_needsApproval = None\<rparr>)) = Some True
   \<and> needsApproval (createOrUpdateFile octokit None) = Some True
   \<and> needsApproval (createOrUpdateFile octokit (Some \<lparr>opt_needsApproval = None\<rparr>)) = Some True"
  by (simp add: createBranch_def forkRepository_def createRepository_def createOrUpdateFile_def)

lemma writeFactory_flag:
  "needsApproval (createOrUpdateFile oc (Some (approval cfg w))) = Some (resolveApproval w cfg)"
  "needsApproval (createPullRequest oc (Some (approval cfg w))) = Some (resolveApproval w cfg)"
  "needsApproval (mergePullRequest oc (Some (approval cfg w))) = Some (resolveApproval w cfg)"
  "needsApproval (addPullRequestComment oc (Some (approval cfg w))) = Some (resolveApproval w cfg)"
  "needsApproval (createIssue oc (Some (approval cfg w))) = Some (resolveApproval w cfg)"
  "needsApproval (addIssueComment oc (Some (approval cfg w))) = Some (resolveApproval w cfg)"
  "needsApproval (closeIssue oc (Some (approval cfg w))) = Some (resolveApproval w cfg)"
  by (simp_all add: approval_def createOrUpdateFile_def createPullRequest_def
      mergePullRequest_def addPullRequestComment_def createIssue_def addIssueComment_def
      closeIssue_def)

lemma readFactory_flag:
  "needsApproval (getRepository oc) = None"
  "needsApproval (listBranches oc) = None"
  "needsApproval (getFileContent oc) = None"
  "needsApproval (listPullRequests oc) = None"
  "needsApproval (getPullRequest oc) = None"
  "needsApproval (listIssues oc) = None"
  "needsApproval (getIssue oc) = None"
  "needsApproval (searchCode oc) = None"
  "needsApproval (searchRepositories oc) = None"
  "needsApproval (listCommits oc) = None"
  "needsApproval (getCommit oc) = None"
  by (simp_all add: getRepository_def listBranches_def getFileContent_def listPullRequests_def
      getPullRequest_def listIssues_def getIssue_def searchCode_def searchRepositories_def
      listCommits_def getCommit_def)

lemma allTools_write:
  "map_of (allTools oc cfg) (writeToolKey w) = Some t \<Longrightarrow>
     needsApproval t = Some (resolveApproval w cfg)"
  by (cases w) (auto simp: allTools_def writeFactory_flag)

lemma allTools_write_present: "\<exists>t. map_of (allTools oc cfg) (writeToolKey w) = Some t"
  by (cases w) (simp_all add: allTools_def)

lemma UNIV_GithubWriteToolName:
  "UNIV = {CreateOrUpdateFile, CreatePullRequest, MergePullRequest, AddPullRequestComment,
           CreateIssue, AddIssueComment, CloseIssue}"
  using GithubWriteToolName.exhaust by auto

lemma range_writeToolKey:
  "range writeToolKey =
     {''createOrUpdateFile'', ''createPullRequest'', ''mergePullRequest'',
      ''addPullRequestComment'', ''createIssue'', ''addIssueComment'', ''closeIssue''}"
  unfolding UNIV_GithubWriteToolName by simp

lemma allTools_read:
  "map_of (allTools oc cfg) name = Some t \<Longrightarrow> name \<notin> range writeToolKey \<Longrightarrow>
     needsApproval t = None"
  unfolding range_writeToolKey
  by (auto simp: allTools_def readFactory_flag split: if_splits)

lemma distinct_keys: "distinct (registryKeys (createGithubTools options))"
  by (simp add: registryKeys_def createGithubTools_def Let_def distinct_allTools
      distinct_map_filter split: option.splits)

text \<open>
  C5, as stated: in every registry built by \<open>createGithubTools\<close>, each of the seven
  mutating tool names has exactly one resolved approval value. A registry filtered by a
  preset does not contain the mutating tools outside the preset: under \<open>repo-explorer\<close>
  there is no entry for \<open>createIssue\<close>, hence no approval value for it.
\<close>

theorem repo_explorer_registry_lacks_createIssue:
  "registryGet (createGithubTools
      \<lparr>token = ''t'', requireApproval = None, preset = Some (Single RepoExplorer)\<rparr>)
     (writeToolKey CreateIssue) = None"
  by (simp add: registryGet_createGithubTools)

text \<open>
  C5, amended: in every registry built by \<open>createGithubTools\<close> a key occurs once. A
  mutating tool name is a key of the registry exactly when the preset selector admits
  it, that is, when the selector is omitted or the name is in the table of one of the
  selected presets; it then has exactly one approval value, the one that
  \<open>resolveApproval\<close> gives for this name under the approval configuration (\<open>True\<close> for
  all when the configuration is omitted). A tool stored under any other name carries no
  approval flag. In particular, when the preset selector is omitted, each of the seven
  mutating tool names is a key of the registry.
\<close>

theorem approval_flags_in_registry:
  "distinct (registryKeys (createGithubTools options))
   \<and> (\<forall>name t. registryGet (createGithubTools options) name = Some t \<longrightarrow>
        (\<forall>w. name = writeToolKey w \<longrightarrow>
           needsApproval t =
             Some (resolveApproval w
                    (case requireApproval options of None \<Rightarrow> Uniform True | Some c \<Rightarrow> c)))
        \<and> (name \<notin> range writeToolKey \<longrightarrow> needsApproval t = None))
   \<and> (preset options = None \<longrightarrow>
        (\<forall>w. \<exists>t. registryGet (createGithubTools options) (writeToolKey w) = Some t))
   \<and> (\<forall>w. (case preset options of
               None \<Rightarrow> True
             | Some sel \<Rightarrow>
                 writeToolKey w \<in>
                   (\<Union>p\<in>set (case sel of Many ps \<Rightarrow> ps | Single p \<Rightarrow> [p]).
                      set (PRESET_TOOLS p))) \<longrightarrow>
          (\<exists>t. registryGet (createGithubTools options) (writeToolKey w) = Some t
             \<and> needsApproval t =
                 Some (resolveApproval w
                        (case requireApproval options of
                           None \<Rightarrow> Uniform True | Some c \<Rightarrow> c))))
   \<and> (\<forall>w. \<not> (case preset options of
                 None \<Rightarrow> True
               | Some sel \<Rightarrow>
                   writeToolKey w \<in>
                     (\<Union>p\<in>set (case sel of Many ps \<Rightarrow> ps | Single p \<Rightarrow> [p]).
                        set (PRESET_TOOLS p))) \<longrightarrow>
          registryGet (createGithubTools options) (writeToolKey w) = None)"
proof (intro conjI allI impI)
  show "distinct (registryKeys (createGithubTools options))" by (rule distinct_keys)
next
  fix name t w
  assume "registryGet (createGithubTools options) name = Some t" "name = writeToolKey w"
  then show "needsApproval t =
             Some (resolveApproval w
                    (case requireApproval options of None \<Rightarrow> Uniform True | Some c \<Rightarrow> c))"
    by (auto simp: registryGet_createGithubTools split: if_splits dest: allTools_write)
next
  fix name t
  assume "registryGet (createGithubTools options) name = Some t" "name \<notin> range writeToolKey"
  then show "needsApproval t = None"
    by (auto simp: registryGet_createGithubTools split: if_splits dest: allTools_read)
next
  fix w
  assume "preset options = None"
  then show "\<exists>t. registryGet (createGithubTools options) (writeToolKey w) = Some t"
    by (simp add: registryGet_createGithubTools allTools_write_present)
next
  fix w
  let ?cfg = "case requireApproval options of None \<Rightarrow> Uniform True | Some c \<Rightarrow> c"
  assume adm: "case preset options of
               None \<Rightarrow> True
             | Some sel \<Rightarrow>
                 writeToolKey w \<in>
                   (\<Union>p\<in>set (case sel of Many ps \<Rightarrow> ps | Single p \<Rightarrow> [p]).
                      set (PRESET_TOOLS p))"
  obtain t where t: "map_of (allTools (createOctokit (token options)) ?cfg) (writeToolKey w) = Some t"
    using allTools_write_present by fast
  from adm t have "registryGet (createGithubTools options) (writeToolKey w) = Some t"
    by (simp only: registryGet_createGithubTools if_True)
  moreover from t have "needsApproval t = Some (resolveApproval w ?cfg)"
    by (rule allTools_write)
  ultimately
  show "\<exists>t. registryGet (createGithubTools options) (writeToolKey w) = Some t
             \<and> needsApproval t = Some (resolveApproval w ?cfg)"
    by (intro exI conjI)
next
  fix w
  assume "\<not> (case preset options of
                 None \<Rightarrow> True
               | Some sel \<Rightarrow>
                   writeToolKey w \<in>
                     (\<Union>p\<in>set (case sel of Many ps \<Rightarrow> ps | Single p \<Rightarrow> [p]).
                        set (PRESET_TOOLS p)))"
  then show "registryGet (createGithubTools options) (writeToolKey w) = None"
    by (simp only: registryGet_createGithubTools if_False)
qed

theorem approval_flags_in_registry_witness:
  "preset \<lparr>token = ''t'', requireApproval = Some (PerTool [CreateIssue \<mapsto> False]), preset = None\<rparr>
     = None
   \<and> registryGet (createGithubTools
         \<lparr>token = ''t'', requireApproval = Some (PerTool [CreateIssue \<mapsto> False]), preset = None\<rparr>)
          (writeToolKey CreateIssue) =
       Some \<lparr>needsApproval = Some False, client = \<lparr>auth = ''t''\<rparr>\<rparr>
   \<and> needsApproval \<lparr>needsApproval = Some False, client = \<lparr>auth = ''t''\<rparr>\<rparr> =
       Some (resolveApproval CreateIssue (PerTool [CreateIssue \<mapsto> False]))
   \<and> ''getIssue'' \<notin> range writeToolKey
   \<and> registryGet (createGithubTools
         \<lparr>token = ''t'', requireApproval = Some (PerTool [CreateIssue \<mapsto> False]), preset = None\<rparr>)
          ''getIssue'' =
       Some \<lparr>needsApproval = None, client = \<lparr>auth = ''t''\<rparr>\<rparr>
   \<and> needsApproval \<lparr>needsApproval = None, client = \<lparr>auth = ''t''\<rparr>\<rparr> = None
   \<and> writeToolKey MergePullRequest \<in> set (PRESET_TOOLS Maintainer)
   \<and> (\<exists>t. registryGet (createGithubTools
              \<lparr>token = ''t'', requireApproval = None, preset = Some (Single Maintainer)\<rparr>)
              (writeToolKey MergePullRequest) = Some t
          \<and> needsApproval t = Some True)
   \<and> writeToolKey MergePullRequest \<notin> set (PRESET_TOOLS CodeReview)
   \<and> registryGet (createGithubTools
         \<lparr>token = ''t'', requireApproval = None, preset = Some (Many [CodeReview])\<rparr>)
         (writeToolKey MergePullRequest) = None"
proof -
  let ?opts =
    "\<lparr>token = ''t'', requireApproval = Some (PerTool [CreateIssue \<mapsto> False]), preset = None\<rparr>"
  let ?t = "\<lparr>needsApproval = Some False, client = \<lparr>auth = ''t''\<rparr>\<rparr>"
  let ?u = "\<lparr>needsApproval = None, client = \<lparr>auth = ''t''\<rparr>\<rparr>"
  let ?m = "\<lparr>token = ''t'', requireApproval = None, preset = Some (Single Maintainer)\<rparr>"
  let ?r = "\<lparr>token = ''t'', requireApproval = None, preset = Some (Many [CodeReview])\<rparr>"
  note flags = conjunct1 [OF conjunct2 [OF approval_flags_in_registry [of ?opts]], rule_format]
  have p: "preset ?opts = None" by simp
  have g: "registryGet (createGithubTools ?opts) (writeToolKey CreateIssue) = Some ?t"
    by (simp add: registryGet_def createGithubTools_def allTools_def createIssue_def
        approval_def createOctokit_def Let_def)
  have "needsApproval ?t =
      Some (resolveApproval CreateIssue
             (case requireApproval ?opts of None \<Rightarrow> Uniform True | Some c \<Rightarrow> c))"
    using flags [OF g, THEN conjunct1, rule_format, OF refl] .
  then have a: "needsApproval ?t =
      Some (resolveApproval CreateIssue (PerTool [CreateIssue \<mapsto> False]))"
    by simp
  have r: "''getIssue'' \<notin> range writeToolKey" by (simp add: range_writeToolKey)
  have h: "registryGet (createGithubTools ?opts) ''getIssue'' = Some ?u"
    by (simp add: registryGet_def createGithubTools_def allTools_def getIssue_def
        createOctokit_def Let_def)
  have b: "needsApproval ?u = None"
    using flags [OF h, THEN conjunct2, rule_format, OF r] .
  have im: "writeToolKey MergePullRequest \<in> set (PRESET_TOOLS Maintainer)" by simp
  then have am: "case preset ?m of
               None \<Rightarrow> True
             | Some sel \<Rightarrow>
                 writeToolKey MergePullRequest \<in>
                   (\<Union>p\<in>set (case sel of Many ps \<Rightarrow> ps | Single p \<Rightarrow> [p]).
                      set (PRESET_TOOLS p))"
    by simp
  have "\<exists>t. registryGet (createGithubTools ?m) (writeToolKey MergePullRequest) = Some t
          \<and> needsApproval t =
              Some (resolveApproval MergePullRequest
                     (case requireApproval ?m of None \<Rightarrow> Uniform True | Some c \<Rightarrow> c))"
    using approval_flags_in_registry [of ?m, THEN conjunct2, THEN conjunct2, THEN conjunct2,
        THEN conjunct1, rule_format, OF am] .
  then have pm: "\<exists>t. registryGet (createGithubTools ?m) (writeToolKey MergePullRequest) = Some t
          \<and> needsApproval t = Some True"
    by simp
  have nr: "writeToolKey MergePullRequest \<notin> set (PRESET_TOOLS CodeReview)" by simp
  then have ar: "\<not> (case preset ?r of
               None \<Rightarrow> True
             | Some sel \<Rightarrow>
                 writeToolKey MergePullRequest \<in>
                   (\<Union>p\<in>set (case sel of Many ps \<Rightarrow> ps | Single p \<Rightarrow> [p]).
                      set (PRESET_TOOLS p)))"
    by simp
  have ab: "registryGet (createGithubTools ?r) (writeToolKey MergePullRequest) = None"
    using approval_flags_in_registry [of ?r, THEN conjunct2, THEN conjunct2, THEN conjunct2,
        THEN conjunct2, rule_format, OF ar] .
  from p g a r h b im pm nr ab show ?thesis by (intro conjI)
qed

section \<open>Branch creation: lookups before the creation of the reference\<close>

lemma createBranch_execute_sha:
  "cb_from inp = Some f \<Longrightarrow> matchesSha f \<Longrightarrow>
     fst (createBranch_execute api inp) =
       [GitCreateRef (cb_owner inp) (cb_repo inp) (''refs/heads/'' @ cb_branch inp) f]"
  by (auto simp: createBranch_execute_def resolveSha_def matchesSha_def)

text \<open>
  C6: in every invocation of the execute function of \<open>createBranch\<close> whose \<open>from\<close>
  argument does not match the pattern of a 40-digit hexadecimal commit SHA, the function
  first resolves a reference name to a SHA by remote lookups and then creates the new
  branch reference from that SHA. The name is the \<open>from\<close> branch when one is given (an
  empty string is falsy and counts as not given), and the default branch of the
  repository otherwise. With \<open>from\<close> omitted the calls are, in this order, the
  repository lookup, the reference lookup and the creation: exactly two lookups come
  before the creation. A lookup that fails ends the invocation with that failure, so a
  creation call is always preceded by the successful lookups and uses the SHA the
  reference lookup returned.
\<close>

theorem createBranch_lookups_before_createRef:
  assumes "case cb_from inp of None \<Rightarrow> True | Some f \<Rightarrow> \<not> matchesSha f"
  shows "fst (createBranch_execute api inp) =
     (if cb_from inp = None \<or> cb_from inp = Some [] then
        (case repos_get api (cb_owner inp) (cb_repo inp) of
           Inl e \<Rightarrow> [ReposGet (cb_owner inp) (cb_repo inp)]
         | Inr d \<Rightarrow>
            (case git_getRef api (cb_owner inp) (cb_repo inp) (''heads/'' @ d) of
               Inl e \<Rightarrow>
                 [ReposGet (cb_owner inp) (cb_repo inp),
                  GitGetRef (cb_owner inp) (cb_repo inp) (''heads/'' @ d)]
             | Inr s \<Rightarrow>
                 [ReposGet (cb_owner inp) (cb_repo inp),
                  GitGetRef (cb_owner inp) (cb_repo inp) (''heads/'' @ d),
                  GitCreateRef (cb_owner inp) (cb_repo inp)
                    (''refs/heads/'' @ cb_branch inp) s]))
      else
        (case git_getRef api (cb_owner inp) (cb_repo inp)
                (''heads/'' @ the (cb_from inp)) of
           Inl e \<Rightarrow>
             [GitGetRef (cb_owner inp) (cb_repo inp) (''heads/'' @ the (cb_from inp))]
         | Inr s \<Rightarrow>
             [GitGetRef (cb_owner inp) (cb_repo inp) (''heads/'' @ the (cb_from inp)),
              GitCreateRef (cb_owner inp) (cb_repo inp)
                (''refs/heads/'' @ cb_branch inp) s]))"
  using assms
  by (auto simp: createBranch_execute_def resolveSha_def sourceBranch_def
      split: option.splits sum.splits prod.splits)

theorem createBranch_lookups_before_createRef_witness:
  "fst (createBranch_execute
      \<lparr>repos_get = (\<lambda>owner repo. Inr ''main''),
       git_getRef = (\<lambda>owner repo r. Inr ''0123abc''),
       git_createRef = (\<lambda>owner repo r sha.
          Inr \<lparr>data_ref = r, data_object_sha = sha, data_url = ''u''\<rparr>)\<rparr>
      \<lparr>cb_owner = ''o'', cb_repo = ''r'', cb_branch = ''b'', cb_from = None\<rparr>) =
     [ReposGet ''o'' ''r'', GitGetRef ''o'' ''r'' ''heads/main'',
      GitCreateRef ''o'' ''r'' ''refs/heads/b'' ''0123abc'']
   \<and> fst (createBranch_execute
      \<lparr>repos_get = (\<lambda>owner repo. Inr ''main''),
       git_getRef = (\<lambda>owner repo r. Inr ''0123abc''),
       git_createRef = (\<lambda>owner repo r sha.
          Inr \<lparr>data_ref = r, data_object_sha = sha, data_url = ''u''\<rparr>)\<rparr>
      \<lparr>cb_owner = ''o'', cb_repo = ''r'', cb_branch = ''b'', cb_from = Some ''dev''\<rparr>) =
     [GitGetRef ''o'' ''r'' ''heads/dev'', GitCreateRef ''o'' ''r'' ''refs/heads/b'' ''0123abc'']"
proof -
  let ?api = "\<lparr>repos_get = (\<lambda>owner repo. Inr ''main''),
       git_getRef = (\<lambda>owner repo r. Inr ''0123abc''),
       git_createRef = (\<lambda>owner repo r sha.
          Inr \<lparr>data_ref = r, data_object_sha = sha, data_url = ''u''\<rparr>)\<rparr>"
  let ?omitted = "\<lparr>cb_owner = ''o'', cb_repo = ''r'', cb_branch = ''b'', cb_from = None\<rparr>"
  let ?dev = "\<lparr>cb_owner = ''o'', cb_repo = ''r'', cb_branch = ''b'', cb_from = Some ''dev''\<rparr>"
  have h1: "case cb_from ?omitted of None \<Rightarrow> True | Some f \<Rightarrow> \<not> matchesSha f"
    by simp
  have h2: "case cb_from ?dev of None \<Rightarrow> True | Some f \<Rightarrow> \<not> matchesSha f"
    by (simp add: matchesSha_def)
  show ?thesis
    using createBranch_lookups_before_createRef [OF h1, of ?api]
      createBranch_lookups_before_createRef [OF h2, of ?api]
    by simp
qed

section \<open>File contents: base64 and UTF-8 round trips\<close>

lemma unat8: "k < 256 \<Longrightarrow> unat (of_nat k :: 8 word) = k"
  by (simp add: unat_of_nat)

lemma unat16: "k < 65536 \<Longrightarrow> unat (of_nat k :: 16 word) = k"
  by (simp add: unat_of_nat)

lemma unat8_less: "unat (b :: 8 word) < 256"
  using unsigned_less [of b, where 'a = nat] by simp

lemma unat16_less: "unat (u :: 16 word) < 65536"
  using unsigned_less [of u, where 'a = nat] by simp

lemma position_nth: "distinct xs \<Longrightarrow> n < length xs \<Longrightarrow> position (xs ! n) xs = Some n"
proof (induction xs arbitrary: n)
  case Nil
  then show ?case by simp
next
  case (Cons y ys)
  show ?case
  proof (cases n)
    case 0
    then show ?thesis by simp
  next
    case (Suc m)
    with Cons.prems have "ys ! m \<in> set ys" "y \<notin> set ys" "distinct ys" "m < length ys" by auto
    with Cons.IH [of m] Suc show ?thesis by auto
  qed
qed

lemma base64Alphabet_distinct: "distinct base64Alphabet"
  by (simp add: base64Alphabet_def)

lemma base64Alphabet_length: "length base64Alphabet = 64"
  by (simp add: base64Alphabet_def)

lemma base64Alphabet_excludes:
  "CHR ''='' \<notin> set base64Alphabet" "CHR ''-'' \<notin> set base64Alphabet"
  "CHR ''_'' \<notin> set base64Alphabet"
  by (simp_all add: base64Alphabet_def)

lemma sextets_Char:
  assumes "n < 64"
  shows "sextets (base64Char n # cs) = n # sextets cs"
proof -
  have m: "base64Char n \<in> set base64Alphabet"
    using assms by (simp add: base64Char_def base64Alphabet_length)
  with base64Alphabet_excludes have
    "base64Char n \<noteq> CHR ''=''" "base64Char n \<noteq> CHR ''-''" "base64Char n \<noteq> CHR ''_''"
    by metis+
  moreover have "position (base64Char n) base64Alphabet = Some n"
    unfolding base64Char_def using assms
    by (intro position_nth base64Alphabet_distinct) (simp add: base64Alphabet_length)
  ultimately show ?thesis by (simp add: base64Value_def)
qed

lemma sextets_pad: "sextets (CHR ''='' # cs) = []"
  by simp

lemma div_bounds:
  fixes a :: nat
  assumes "a < 256"
  shows "a div 4 < 64" "a div 16 < 16" "a div 64 < 4"
  using assms by simp_all

lemma mod_bounds:
  fixes a :: nat
  shows "a mod 4 * 16 < 64" "a mod 16 * 4 < 64" "a mod 64 < 64"
    "y < 16 \<Longrightarrow> a mod 4 * 16 + y < 64" "y < 4 \<Longrightarrow> a mod 16 * 4 + y < 64"
  by simp_all

lemma shift_div_mod:
  fixes x y :: nat
  shows "y < 16 \<Longrightarrow> (x * 16 + y) div 16 = x" "y < 16 \<Longrightarrow> (x * 16 + y) mod 16 = y"
    "y < 4 \<Longrightarrow> (x * 4 + y) div 4 = x" "y < 4 \<Longrightarrow> (x * 4 + y) mod 4 = y"
    "(x * 16) div 16 = x" "(x * 4) div 4 = x"
  by simp_all

lemma recompose:
  fixes a :: nat
  shows "a div 4 * 4 + a mod 4 = a" "a div 16 * 16 + a mod 16 = a" "a div 64 * 64 + a mod 64 = a"
  by simp_all

lemma sextets_group1:
  assumes "a < 256"
  shows "sextets (base64Groups [a]) = [a div 4, a mod 4 * 16]"
  using assms
  by (simp add: sextets_Char div_bounds mod_bounds del: sextets.simps) simp

lemma sextets_group2:
  assumes "a < 256" "b < 256"
  shows "sextets (base64Groups [a, b]) = [a div 4, a mod 4 * 16 + b div 16, b mod 16 * 4]"
  using assms
  by (simp add: sextets_Char div_bounds mod_bounds del: sextets.simps) simp

lemma sextets_group3:
  assumes "a < 256" "b < 256" "c < 256"
  shows "sextets (base64Groups (a # b # c # bs)) =
     a div 4 # (a mod 4 * 16 + b div 16) # (b mod 16 * 4 + c div 64) # c mod 64 #
       sextets (base64Groups bs)"
  using assms
  by (simp add: sextets_Char div_bounds mod_bounds del: sextets.simps)

lemma bytes_group1:
  fixes a :: nat
  shows "sextetBytes [a div 4, a mod 4 * 16] = [a]"
  by (simp only: sextetBytes.simps shift_div_mod recompose)

lemma bytes_group2:
  fixes a b :: nat
  assumes "b < 256"
  shows "sextetBytes [a div 4, a mod 4 * 16 + b div 16, b mod 16 * 4] = [a, b]"
  by (simp only: sextetBytes.simps shift_div_mod div_bounds [OF assms] recompose)

lemma bytes_group3:
  fixes a b c :: nat
  assumes "b < 256" "c < 256"
  shows "sextetBytes (a div 4 # (a mod 4 * 16 + b div 16) # (b mod 16 * 4 + c div 64) #
            c mod 64 # rest) = [a, b, c] @ sextetBytes rest"
  by (simp only: sextetBytes.simps shift_div_mod div_bounds [OF assms(1)]
      div_bounds [OF assms(2)] recompose)

lemma sextetBytes_Groups:
  "\<forall>b\<in>set bs. b < 256 \<Longrightarrow> sextetBytes (sextets (base64Groups bs)) = bs"
proof (induction bs rule: base64Groups.induct)
  case 1
  then show ?case by simp
next
  case (2 a)
  then show ?case by (simp only: sextets_group1 bytes_group1 list.set ball_simps)
next
  case (3 a b)
  then show ?case by (simp add: sextets_group2 bytes_group2 del: base64Groups.simps sextetBytes.simps)
next
  case (4 a b c bs)
  then have a: "a < 256" and b: "b < 256" and c: "c < 256" and
    bs: "\<forall>b\<in>set bs. b < 256" by simp_all
  show ?case
    by (simp only: sextets_group3 [OF a b c] bytes_group3 [OF b c] "4.IH" [OF bs] append.simps)
qed

lemma base64_roundtrip: "base64Decode (base64Encode bs) = bs"
proof -
  have "\<forall>b\<in>set (map unat bs). b < 256" by (simp add: unat8_less)
  then have "sextetBytes (sextets (base64Groups (map unat bs))) = map unat bs"
    by (rule sextetBytes_Groups)
  then show ?thesis by (simp add: base64Decode_def base64Encode_def map_idI)
qed

lemma div4096: "(c::nat) div 4096 = c div 64 div 64"
  by (simp add: div_mult2_eq)

lemma div262144: "(c::nat) div 262144 = c div 4096 div 64"
  by (simp add: div_mult2_eq)

lemma mod_as_diff: "(h::nat) mod 64 = h - h div 64 * 64"
  by (simp add: minus_div_mult_eq_mod)

lemma digits2: "(c::nat) div 64 * 64 + c mod 64 = c"
  by simp

lemma digits3: "(c::nat) div 4096 * 4096 + c div 64 mod 64 * 64 + c mod 64 = c"
proof -
  have scale: "(g::nat) * 4096 + m * 64 = (g * 64 + m) * 64" for g m by simp
  have "c div 64 div 64 * 4096 + c div 64 mod 64 * 64 = (c div 64 div 64 * 64 + c div 64 mod 64) * 64"
    by (rule scale)
  also have "\<dots> = c div 64 * 64" by (simp only: div_mult_mod_eq)
  finally show ?thesis by (simp only: div4096 digits2)
qed

lemma digits4:
  "(c::nat) div 262144 * 262144 + c div 4096 mod 64 * 4096 + c div 64 mod 64 * 64 + c mod 64 = c"
proof -
  have scale: "(f::nat) * 262144 + g * 4096 = (f * 64 + g) * 4096" for f g by simp
  have "c div 4096 div 64 * 262144 + c div 4096 mod 64 * 4096 =
      (c div 4096 div 64 * 64 + c div 4096 mod 64) * 4096"
    by (rule scale)
  also have "\<dots> = c div 4096 * 4096" by (simp only: div_mult_mod_eq)
  finally have "c div 262144 * 262144 + c div 4096 mod 64 * 4096 = c div 4096 * 4096"
    by (simp only: div262144)
  then show ?thesis using digits3 [of c] by (simp only:)
qed

lemma three_E0:
  fixes c :: nat
  assumes "2048 \<le> c" "c div 4096 = 0"
  shows "32 \<le> c div 64 mod 64"
proof -
  from assms(2) have "c < 4096" by simp
  then have "c div 64 < 64" by simp
  then have "c div 64 mod 64 = c div 64" by simp
  moreover from assms(1) have "32 \<le> c div 64" by simp
  ultimately show ?thesis by simp
qed

lemma three_ED:
  fixes c :: nat
  assumes "c < 55296" "c div 4096 = 13"
  shows "c div 64 mod 64 \<le> 31"
proof -
  from assms(2) have "c div 64 div 64 = 13" by (simp only: div4096)
  then have "c div 64 mod 64 = c div 64 - 832" by (simp add: mod_as_diff)
  moreover from assms(1) have "c div 64 < 864" by simp
  ultimately show ?thesis by simp
qed

lemma four_F0:
  fixes c :: nat
  assumes "65536 \<le> c" "c div 262144 = 0"
  shows "16 \<le> c div 4096 mod 64"
proof -
  from assms(2) have "c < 262144" by simp
  then have "c div 4096 < 64" by simp
  then have "c div 4096 mod 64 = c div 4096" by simp
  moreover from assms(1) have "16 \<le> c div 4096" by simp
  ultimately show ?thesis by simp
qed

lemma four_F4:
  fixes c :: nat
  assumes "c < 1114112" "c div 262144 = 4"
  shows "c div 4096 mod 64 \<le> 15"
proof -
  from assms(2) have "c div 4096 div 64 = 4" by (simp only: div262144)
  then have "c div 4096 mod 64 = c div 4096 - 256" by (simp add: mod_as_diff)
  moreover from assms(1) have "c div 4096 < 272" by simp
  ultimately show ?thesis by simp
qed


lemma utf8Bytes_nat:
  assumes "c < 0x110000"
  shows "map unat (utf8Bytes c) =
     (if c < 0x80 then [c]
      else if c < 0x800 then [0xC0 + c div 64, 0x80 + c mod 64]
      else if c < 0x10000 then [0xE0 + c div 4096, 0x80 + c div 64 mod 64, 0x80 + c mod 64]
      else [0xF0 + c div 262144, 0x80 + c div 4096 mod 64, 0x80 + c div 64 mod 64,
            0x80 + c mod 64])"
proof -
  have m: "128 + k mod 64 < 256" for k :: nat
    using mod_less_divisor [of 64 k] by linarith
  have a: "c < 0x800 \<Longrightarrow> 192 + c div 64 < 256" by simp
  have b: "c < 0x10000 \<Longrightarrow> 224 + c div 4096 < 256" by simp
  from assms have d: "240 + c div 262144 < 256" by simp
  show ?thesis
    using a b d by (simp add: utf8Bytes_def unat8 m del: of_nat_add of_nat_numeral)
qed

lemma dec1: "c < 128 \<Longrightarrow> decodePoints (c # rest) = c # decodePoints rest"
  by simp

lemma dec2:
  assumes "2 \<le> h" "h < 32" "l < 64"
  shows "decodePoints ((192 + h) # (128 + l) # rest) = (h * 64 + l) # decodePoints rest"
  using assms by (simp add: isContinuation_def)

lemma dec3:
  assumes "g < 16" "m < 64" "l < 64" "g = 0 \<longrightarrow> 32 \<le> m" "g = 13 \<longrightarrow> m \<le> 31"
  shows "decodePoints ((224 + g) # (128 + m) # (128 + l) # rest) =
     (g * 4096 + m * 64 + l) # decodePoints rest"
  using assms by (simp add: isContinuation_def secondByteOk_def)

lemma dec4:
  assumes "f < 5" "g < 64" "m < 64" "l < 64" "f = 0 \<longrightarrow> 16 \<le> g" "f = 4 \<longrightarrow> g \<le> 15"
  shows "decodePoints ((240 + f) # (128 + g) # (128 + m) # (128 + l) # rest) =
     (f * 262144 + g * 4096 + m * 64 + l) # decodePoints rest"
  using assms by (simp add: isContinuation_def secondByteOk_def)


lemma decode_utf8Bytes:
  assumes "isScalar c"
  shows "decodePoints (map unat (utf8Bytes c) @ rest) = c # decodePoints rest"
proof -
  from assms have lt: "c < 0x110000" and ns: "\<not> (0xD800 \<le> c \<and> c \<le> 0xDFFF)"
    by (simp_all add: isScalar_def)
  have l: "c mod 64 < 64" and m: "c div 64 mod 64 < 64" and g: "c div 4096 mod 64 < 64"
    by simp_all
  consider "c < 0x80" | "0x80 \<le> c" "c < 0x800" | "0x800 \<le> c" "c < 0x10000" | "0x10000 \<le> c"
    by linarith
  then show ?thesis
  proof cases
    case 1
    then show ?thesis by (simp add: utf8Bytes_nat [OF lt])
  next
    case 2
    then have h: "2 \<le> c div 64" "c div 64 < 32" by simp_all
    from 2 have "map unat (utf8Bytes c) = [192 + c div 64, 128 + c mod 64]"
      by (simp add: utf8Bytes_nat [OF lt])
    then show ?thesis
      using dec2 [OF h l, of rest] by (simp only: append.simps digits2)
  next
    case 3
    then have h: "c div 4096 < 16" by simp
    have e0: "c div 4096 = 0 \<longrightarrow> 32 \<le> c div 64 mod 64"
      using three_E0 [of c] 3(1) by blast
    have ed: "c div 4096 = 13 \<longrightarrow> c div 64 mod 64 \<le> 31"
    proof
      assume d: "c div 4096 = 13"
      then have "53248 \<le> c" by simp
      with ns have "c < 55296 \<or> 57343 < c" by linarith
      moreover from d have "c < 57344" by simp
      ultimately have "c < 55296" by linarith
      then show "c div 64 mod 64 \<le> 31" using d by (rule three_ED)
    qed
    from 3 have "map unat (utf8Bytes c) =
        [224 + c div 4096, 128 + c div 64 mod 64, 128 + c mod 64]"
      by (simp add: utf8Bytes_nat [OF lt])
    then show ?thesis
      using dec3 [OF h m l e0 ed, of rest] by (simp only: append.simps digits3)
  next
    case 4
    from lt have h: "c div 262144 < 5" by simp
    have f0: "c div 262144 = 0 \<longrightarrow> 16 \<le> c div 4096 mod 64"
      using four_F0 [of c] 4 by blast
    have f4: "c div 262144 = 4 \<longrightarrow> c div 4096 mod 64 \<le> 15"
      using four_F4 [of c] lt by simp
    from 4 have "map unat (utf8Bytes c) =
        [240 + c div 262144, 128 + c div 4096 mod 64, 128 + c div 64 mod 64, 128 + c mod 64]"
      by (simp add: utf8Bytes_nat [OF lt])
    then show ?thesis
      using dec4 [OF h g m l f0 f4, of rest] by (simp only: append.simps digits4)
  qed
qed

lemma decodePoints_utf8:
  "\<forall>c\<in>set cs. isScalar c \<Longrightarrow> decodePoints (map unat (concat (map utf8Bytes cs))) = cs"
  by (induction cs) (simp_all add: decode_utf8Bytes)

lemma unit_scalar:
  assumes "\<not> isSurrogate u"
  shows "isScalar (unitCodePoint u)" "utf16Units (unitCodePoint u) = [u]"
  using assms unat16_less [of u]
  by (auto simp: isScalar_def unitCodePoint_def isSurrogate_def isHighSurrogate_def
      isLowSurrogate_def utf16Units_def)

lemma pair_scalar:
  assumes "isHighSurrogate u" "isLowSurrogate v"
  shows "isScalar (0x10000 + (unat u - 0xD800) * 0x400 + (unat v - 0xDC00))"
    "utf16Units (0x10000 + (unat u - 0xD800) * 0x400 + (unat v - 0xDC00)) = [u, v]"
proof -
  define x where "x = unat u - 0xD800"
  define y where "y = unat v - 0xDC00"
  from assms have x: "x < 1024" "unat u = 0xD800 + x" and y: "y < 1024" "unat v = 0xDC00 + y"
    by (auto simp: x_def y_def isHighSurrogate_def isLowSurrogate_def)
  have dm: "(x * 1024 + y) div 1024 = x" "(x * 1024 + y) mod 1024 = y"
    using y(1) by simp_all
  show "isScalar (0x10000 + (unat u - 0xD800) * 0x400 + (unat v - 0xDC00))"
    unfolding x_def [symmetric] y_def [symmetric] isScalar_def using x(1) y(1) by simp
  have "utf16Units (0x10000 + x * 0x400 + y) = [of_nat (unat u), of_nat (unat v)]"
    using dm x(2) y(2) by (simp add: utf16Units_def del: of_nat_add of_nat_numeral)
  then show "utf16Units (0x10000 + (unat u - 0xD800) * 0x400 + (unat v - 0xDC00)) = [u, v]"
    unfolding x_def [symmetric] y_def [symmetric] by simp
qed

lemma wellFormed_codePoints:
  "wellFormed s \<Longrightarrow>
     (\<forall>c\<in>set (codePoints s). isScalar c) \<and> concat (map utf16Units (codePoints s)) = s"
proof (induction s rule: codePoints.induct)
  case 1
  then show ?case by simp
next
  case (2 u)
  then show ?case by (simp add: unit_scalar)
next
  case (3 u v us)
  show ?case
  proof (cases "isHighSurrogate u \<and> isLowSurrogate v")
    case True
    with 3 show ?thesis by (simp add: pair_scalar)
  next
    case False
    then have "codePoints (u # v # us) = unitCodePoint u # codePoints (v # us)"
      by auto
    moreover from False 3(3) have "\<not> isSurrogate u" "wellFormed (v # us)" by auto
    moreover note 3(2) [OF False]
    ultimately show ?thesis by (simp add: unit_scalar)
  qed
qed

lemma utf8_roundtrip: "wellFormed s \<Longrightarrow> utf8Decode (utf8Encode s) = s"
  using wellFormed_codePoints [of s]
  by (simp add: utf8Decode_def utf8Encode_def decodePoints_utf8)


lemma unitCodePoint_scalar: "isScalar (unitCodePoint u)"
  using unat16_less [of u]
  by (auto simp: isScalar_def unitCodePoint_def isSurrogate_def isHighSurrogate_def
      isLowSurrogate_def)

lemma codePoints_scalar: "\<forall>c\<in>set (codePoints s). isScalar c"
  by (induction s rule: codePoints.induct) (simp_all add: unitCodePoint_scalar pair_scalar)

lemma decodeContent_encodeContent:
  "decodeContent (encodeContent s) = concat (map utf16Units (codePoints s))"
  by (simp add: decodeContent_def encodeContent_def base64_roundtrip utf8Decode_def
      utf8Encode_def decodePoints_utf8 codePoints_scalar)

text \<open>
  C7, as stated: for every string content \<open>c\<close>, encoding \<open>c\<close> with the step of
  \<open>createOrUpdateFile\<close> and decoding with the step of \<open>getFileContent\<close> gives \<open>c\<close> again.
  A string that holds a surrogate code unit without its partner does not come back: the
  UTF-8 encoder writes U+FFFD for it.
\<close>

theorem lone_surrogate_not_restored:
  "decodeContent (encodeContent [0xD800]) = [0xFFFD]
   \<and> decodeContent (encodeContent [0xD800]) \<noteq> [0xD800]"
  by (simp add: decodeContent_encodeContent unitCodePoint_def isSurrogate_def
      isHighSurrogate_def utf16Units_def)

text \<open>
  C7, amended: for every well-formed string content \<open>c\<close> (every surrogate code unit is
  part of a pair), encoding \<open>c\<close> with the base64 step of \<open>createOrUpdateFile\<close> and decoding
  with the base64-to-UTF-8 step of \<open>getFileContent\<close> gives \<open>c\<close> again; hence
  \<open>getFileContent\<close>, answered with a file whose content is what
  \<open>createOrUpdateFile\<close> sent for \<open>c\<close>, returns the content \<open>c\<close>. For a directory,
  \<open>getFileContent\<close> returns a listing whose entries are in the order of the remote
  answer.
\<close>

theorem file_content_roundtrip:
  "(wellFormed c \<longrightarrow> decodeContent (encodeContent c) = c)
   \<and> (wellFormed (cf_content inp) \<longrightarrow> object_type d = ''file'' \<longrightarrow>
        object_content d = req_content (fst (createOrUpdateFile_execute put inp)) \<longrightarrow>
        (\<exists>out. getFileContent_execute (\<lambda>owner repo path r. Inr (ContentObject d)) rd =
                 Inr (FileResult out) \<and> file_content out = cf_content inp))
   \<and> (getContent (gf_owner rd) (gf_repo rd) (gf_path rd) (gf_ref rd) =
          Inr (ContentArray entries) \<longrightarrow>
        (\<exists>listing. getFileContent_execute getContent rd = Inr (DirectoryResult listing)
           \<and> map listed_name listing = map entry_name entries
           \<and> map listed_type listing = map entry_type entries
           \<and> map listed_path listing = map entry_path entries))"
proof (intro conjI impI)
  assume "wellFormed c"
  then show "decodeContent (encodeContent c) = c"
    by (simp add: decodeContent_encodeContent wellFormed_codePoints)
next
  assume w: "wellFormed (cf_content inp)" and f: "object_type d = ''file''"
    and c: "object_content d = req_content (fst (createOrUpdateFile_execute put inp))"
  from c have "object_content d = encodeContent (cf_content inp)"
    by (simp add: createOrUpdateFile_execute_def createOrUpdateFile_request_def Let_def)
  with w f
  show "\<exists>out. getFileContent_execute (\<lambda>owner repo path r. Inr (ContentObject d)) rd =
                 Inr (FileResult out) \<and> file_content out = cf_content inp"
    by (simp add: getFileContent_execute_def decodeContent_encodeContent wellFormed_codePoints)
next
  assume "getContent (gf_owner rd) (gf_repo rd) (gf_path rd) (gf_ref rd) =
      Inr (ContentArray entries)"
  then show "\<exists>listing. getFileContent_execute getContent rd = Inr (DirectoryResult listing)
           \<and> map listed_name listing = map entry_name entries
           \<and> map listed_type listing = map entry_type entries
           \<and> map listed_path listing = map entry_path entries"
    by (simp add: getFileContent_execute_def comp_def)
qed

theorem file_content_roundtrip_witness:
  "wellFormed [0x48, 0x69, 0xD83D, 0xDE00]
   \<and> decodeContent (encodeContent [0x48, 0x69, 0xD83D, 0xDE00]) = [0x48, 0x69, 0xD83D, 0xDE00]
   \<and> (\<exists>listing.
        getFileContent_execute
          (\<lambda>owner repo path r. Inr (ContentArray
             [\<lparr>entry_name = ''b'', entry_type = ''file'', entry_path = ''d/b'', entry_sha = ''1''\<rparr>,
              \<lparr>entry_name = ''a'', entry_type = ''dir'', entry_path = ''d/a'', entry_sha = ''2''\<rparr>]))
          \<lparr>gf_owner = ''o'', gf_repo = ''r'', gf_path = ''d'', gf_ref = None\<rparr> =
          Inr (DirectoryResult listing)
        \<and> map listed_name listing = [''b'', ''a''])"
proof -
  let ?c = "[0x48, 0x69, 0xD83D, 0xDE00] :: js_string"
  let ?entries =
    "[\<lparr>entry_name = ''b'', entry_type = ''file'', entry_path = ''d/b'', entry_sha = ''1''\<rparr>,
      \<lparr>entry_name = ''a'', entry_type = ''dir'', entry_path = ''d/a'', entry_sha = ''2''\<rparr>]"
  let ?get = "\<lambda>owner repo path r. Inr (ContentArray ?entries) :: remote_error + content_data"
  let ?rd = "\<lparr>gf_owner = ''o'', gf_repo = ''r'', gf_path = ''d'', gf_ref = None\<rparr>"
  note t = file_content_roundtrip [where c = ?c and getContent = ?get and rd = ?rd
      and entries = ?entries]
  have w: "wellFormed ?c"
    by (simp add: isSurrogate_def isHighSurrogate_def isLowSurrogate_def)
  have r: "decodeContent (encodeContent ?c) = ?c"
    using t [THEN conjunct1] w by (rule mp)
  have g: "?get (gf_owner ?rd) (gf_repo ?rd) (gf_path ?rd) (gf_ref ?rd) =
      Inr (ContentArray ?entries)"
    by simp
  have "\<exists>listing. getFileContent_execute ?get ?rd = Inr (DirectoryResult listing)
           \<and> map listed_name listing = map entry_name ?entries
           \<and> map listed_type listing = map entry_type ?entries
           \<and> map listed_path listing = map entry_path ?entries"
    using t [THEN conjunct2, THEN conjunct2] g by (rule mp)
  then have "\<exists>listing. getFileContent_execute ?get ?rd = Inr (DirectoryResult listing)
           \<and> map listed_name listing = [''b'', ''a'']"
    by auto
  with w r show ?thesis by (intro conjI)
qed

end
